theory Spec2Isabelle
  imports Main "HOL-Library.Word"
begin

unbundle bit_operations_syntax

section \<open>Padding codec (message.go, lines 78-99)\<close>

type_synonym byte = "8 word"
type_synonym bytes = "byte list"

text \<open>
  A Go function of this file ends in one of three ways: it returns a value, it returns
  a non-nil \<open>error\<close>, or it panics (an index or slice expression out of range, a nil
  pointer dereference, an explicit \<open>panic(err)\<close>).
\<close>

datatype panic = IndexOutOfRange | SliceBoundsOutOfRange | NilDereference | RandReadFailed

datatype err =
    BadPadding
  | FailedParsePreKey | FailedDecryptPreKey
  | FailedParseNormal | FailedDecryptNormal
  | FailedParseGroup | FailedDecryptGroup

datatype 'a outcome = Return 'a | Fail err | Panic panic

text \<open>\<open>bytes.Repeat(b, n)\<close> for a one-byte slice \<open>b\<close>, and \<open>bytes.HasSuffix\<close> of the Go
  standard library: the suffix is no longer than the slice and equals its tail.\<close>

definition Repeat :: "byte \<Rightarrow> nat \<Rightarrow> bytes" where
  "Repeat b n = replicate n b"

definition HasSuffix :: "bytes \<Rightarrow> bytes \<Rightarrow> bool" where
  "HasSuffix s suffix \<longleftrightarrow>
     length suffix \<le> length s \<and> drop (length s - length suffix) s = suffix"

text \<open>
  \<open>unpadMessage\<close>, with the global \<open>CheckPadding\<close> as its first argument. The index
  expression \<open>plaintext[len(plaintext)-1]\<close> panics on an empty slice, in the check and
  in the final slice expression alike; the slice expression
  \<open>plaintext[:len(plaintext)-int(last)]\<close> panics when the bound is negative.
\<close>

definition strip :: "bytes \<Rightarrow> bytes outcome" where
  "strip plaintext =
     (if plaintext = [] then Panic IndexOutOfRange
      else if length plaintext < unat (last plaintext) then Panic SliceBoundsOutOfRange
      else Return (take (length plaintext - unat (last plaintext)) plaintext))"

definition unpadMessage :: "bool \<Rightarrow> bytes \<Rightarrow> bytes outcome" where
  "unpadMessage CheckPadding plaintext =
     (if CheckPadding then
        (if plaintext = [] then Panic IndexOutOfRange
         else
           let lastByte = last plaintext;
               expectedPadding = Repeat lastByte (unat lastByte)
           in if \<not> HasSuffix plaintext expectedPadding then Fail BadPadding
              else strip plaintext)
      else strip plaintext)"

text \<open>
  \<open>padMessage\<close>. The byte read from \<open>crypto/rand\<close> is the first argument: \<open>None\<close> when
  \<open>rand.Read\<close> returns an error (the source panics), \<open>Some r\<close> for the byte drawn. The
  source repeats the slice \<open>pad[:]\<close>, that is the byte \<open>r\<close> as drawn, \<open>r & 0xf\<close> times.
\<close>

definition padMessage :: "byte option \<Rightarrow> bytes \<Rightarrow> bytes outcome" where
  "padMessage rnd plaintext =
     (case rnd of
        None \<Rightarrow> Panic RandReadFailed
      | Some r \<Rightarrow> Return (plaintext @ Repeat r (unat (r AND 0xf))))"

text \<open>Unpadding what padding returned (a panic of \<open>padMessage\<close> propagates).\<close>

definition unpad_after_pad :: "bool \<Rightarrow> byte option \<Rightarrow> bytes \<Rightarrow> bytes outcome" where
  "unpad_after_pad CheckPadding rnd x =
     (case padMessage rnd x of
        Return padded \<Rightarrow> unpadMessage CheckPadding padded
      | Fail e \<Rightarrow> Fail e
      | Panic p \<Rightarrow> Panic p)"

section \<open>Protocol units and message metadata\<close>

text \<open>
  Modelled from the spec: the declarations of \<open>waBinary.FullJID\<close> and \<open>waBinary.Node\<close> are
  not in the source. The spec describes a unit as "a generic labelled-tree structure with
  attributes and either binary or child-node content"; the source reads the fields
  \<open>User\<close> and \<open>Server\<close> of an address and \<open>Tag\<close>, \<open>Attrs\<close> (a
  \<open>map[string]interface{}\<close>) and \<open>Content\<close> of a node. An attribute value is a string,
  an address, an integer or the nil interface value.
\<close>

record FullJID =
  User :: string
  Server :: string

datatype attr = ANil | AString string | AJID FullJID | AInt int

datatype 'n content = CNil | CBytes bytes | CNodes "'n list"

datatype node = Node (Tag: string) (Attrs: "string \<rightharpoonup> attr") (Content: "node content")

text \<open>
  Modelled from the spec: \<open>Node.GetChildren\<close> and \<open>Node.GetChildrenByTag\<close> are not in the
  source. The children of a unit are its content when that is a list of nodes (none
  otherwise), and the children by tag are those whose tag is the one asked for.
\<close>

definition GetChildren :: "node \<Rightarrow> node list" where
  "GetChildren n = (case Content n of CNodes cs \<Rightarrow> cs | _ \<Rightarrow> [])"

definition GetChildrenByTag :: "node \<Rightarrow> string \<Rightarrow> node list" where
  "GetChildrenByTag n t = filter (\<lambda>c. Tag c = t) (GetChildren n)"

text \<open>Go's \<open>m[k]\<close> on an interface-valued map, and the type assertions \<open>m[k].(string)\<close> and
  \<open>m[k].(waBinary.FullJID)\<close> in their two-result form.\<close>

definition attr_value :: "(string \<rightharpoonup> attr) \<Rightarrow> string \<Rightarrow> attr" where
  "attr_value m k = (case m k of None \<Rightarrow> ANil | Some v \<Rightarrow> v)"

definition attr_string :: "(string \<rightharpoonup> attr) \<Rightarrow> string \<Rightarrow> string option" where
  "attr_string m k = (case m k of Some (AString s) \<Rightarrow> Some s | _ \<Rightarrow> None)"

definition attr_JID :: "(string \<rightharpoonup> attr) \<Rightarrow> string \<Rightarrow> FullJID option" where
  "attr_JID m k = (case m k of Some (AJID j) \<Rightarrow> Some j | _ \<Rightarrow> None)"

text \<open>
  \<open>strconv.ParseInt(s, 10, 64)\<close> of the Go standard library: an optional sign, then at
  least one decimal digit and nothing else; the value must fit in a signed 64-bit
  integer.
\<close>

definition is_digit :: "char \<Rightarrow> bool" where
  "is_digit c \<longleftrightarrow> (48::nat) \<le> of_char c \<and> of_char c \<le> (57::nat)"

definition digits_value :: "string \<Rightarrow> nat" where
  "digits_value ds = foldl (\<lambda>acc c. 10 * acc + (of_char c - 48)) 0 ds"

definition ParseInt :: "string \<Rightarrow> int option" where
  "ParseInt s =
     (if s = [] then None
      else
        let neg = (hd s = CHR ''-'');
            digits = (if hd s = CHR ''+'' \<or> hd s = CHR ''-'' then tl s else s)
        in if digits = [] \<or> \<not> list_all is_digit digits then None
           else
             let un = digits_value digits
             in if \<not> neg \<and> 2 ^ 63 \<le> un then None
                else if neg \<and> 2 ^ 63 < un then None
                else Some (if neg then - int un else int un))"

record MessageInfo =
  From :: FullJID
  Chat :: "FullJID option"
  ID :: string
  Type :: string
  Recipient :: "FullJID option"
  Notify :: string
  Timestamp :: int
  Category :: string

datatype malformed =
    NoValidFrom | NoValidParticipant | NoValidID | NoValidTimestamp | UnparsableTimestamp

definition zero_JID :: FullJID where
  "zero_JID = \<lparr>User = [], Server = []\<rparr>"

definition zero_MessageInfo :: MessageInfo where
  "zero_MessageInfo =
     \<lparr>From = zero_JID, Chat = None, ID = [], Type = [], Recipient = None,
      Notify = [], Timestamp = 0, Category = []\<rparr>"

text \<open>
  \<open>parseMessageInfo\<close>; the constant \<open>waBinary.GroupServer\<close>, which is not in the source,
  is the first argument. Every error of the function is a \<open>malformed\<close> value.
\<close>

definition attr_string_or_empty :: "(string \<rightharpoonup> attr) \<Rightarrow> string \<Rightarrow> string" where
  "attr_string_or_empty m k = (case attr_string m k of None \<Rightarrow> [] | Some s \<Rightarrow> s)"

definition parse_addressing :: "string \<Rightarrow> node \<Rightarrow> FullJID \<Rightarrow> MessageInfo \<Rightarrow> MessageInfo option" where
  "parse_addressing GroupServer n from_jid info =
     (if Server from_jid = GroupServer then
        (case attr_JID (Attrs n) ''participant'' of
           None \<Rightarrow> None
         | Some participant \<Rightarrow> Some (info\<lparr>Chat := Some from_jid, From := participant\<rparr>))
      else Some (info\<lparr>From := from_jid\<rparr>))"

definition parse_identification :: "node \<Rightarrow> MessageInfo \<Rightarrow> malformed + MessageInfo" where
  "parse_identification n info =
     (case attr_string (Attrs n) ''id'' of
        None \<Rightarrow> Inl NoValidID
      | Some i \<Rightarrow>
          (case attr_string (Attrs n) ''t'' of
             None \<Rightarrow> Inl NoValidTimestamp
           | Some ts \<Rightarrow>
               (case ParseInt ts of
                  None \<Rightarrow> Inl UnparsableTimestamp
                | Some t \<Rightarrow>
                    Inr (info\<lparr>ID := i, Timestamp := t,
                              Notify := attr_string_or_empty (Attrs n) ''notify'',
                              Category := attr_string_or_empty (Attrs n) ''category''\<rparr>))))"

definition parseMessageInfo :: "string \<Rightarrow> node \<Rightarrow> malformed + MessageInfo" where
  "parseMessageInfo GroupServer n =
     (case attr_JID (Attrs n) ''from'' of
        None \<Rightarrow> Inl NoValidFrom
      | Some from_jid \<Rightarrow>
          (case parse_addressing GroupServer n from_jid
                  (zero_MessageInfo\<lparr>Recipient := attr_JID (Attrs n) ''recipient''\<rparr>) of
             None \<Rightarrow> Inl NoValidParticipant
           | Some info \<Rightarrow> parse_identification n info))"

section \<open>The client, its collaborators and its observable trace\<close>

text \<open>
  Modelled from the spec: the generated type \<open>waProto.Message\<close> is not in the source.
  The source reads three optional parts of a decoded payload: the sender-key
  distribution sub-payload (with its raw bytes), the protocol-control sub-payload and,
  inside it, the history-sync notification (with the four fields handed to the media
  download).
\<close>

record SenderKeyDistributionMessage =
  AxolotlSenderKeyDistributionMessage :: bytes

record HistorySyncNotification =
  DirectPath :: string
  FileEncSha256 :: bytes
  MediaKey :: bytes
  FileLength :: nat

record ProtocolMessage =
  historySyncNotification :: "HistorySyncNotification option"

record Message =
  senderKeyDistributionMessage :: "SenderKeyDistributionMessage option"
  protocolMessage :: "ProtocolMessage option"

text \<open>
  What a run of the client does to the outside is recorded in a trace, in order: the
  lines written to the logger (level and format string), the calls of the two decrypt
  functions, the units handed to \<open>sendNode\<close>, the units acknowledged by \<open>sendAck\<close> and the
  events handed to \<open>dispatchEvent\<close>. Writes to standard output (\<open>fmt.Printf\<close>,
  \<open>fmt.Println\<close>) are not recorded.
\<close>

datatype level = LDebug | LWarn | LError

datatype event =
    Log level string
  | CallDecryptDM node FullJID bool
  | CallDecryptGroupMsg node FullJID FullJID
  | SendNode node
  | SendAck node
  | DispatchEvent MessageInfo Message

text \<open>
  The session object \<open>cli.Session\<close>, the Signal library, protobuf, zlib, the media
  download and the transport are outside the source. The session is a value of an
  abstract type \<open>'s\<close>, a parsed ciphertext envelope a value of \<open>'c\<close>, a prekey a value
  of \<open>'k\<close>, and every operation the source calls on them is a field of the environment.
  A library call that returns a non-nil error is \<open>None\<close> (or \<open>True\<close> for \<open>sendNode\<close>);
  a call that may change the session store returns the new session.
\<close>

record ('s, 'c, 'k) env =
  CheckPadding :: bool
  UserServer :: string
  DjbType :: byte
  NewPreKeySignalMessageFromBytes :: "bytes \<Rightarrow> 'c option"
  NewSignalMessageFromBytes :: "bytes \<Rightarrow> 'c option"
  NewSenderKeyMessageFromBytes :: "bytes \<Rightarrow> 'c option"
  NewSenderKeyDistributionMessageFromBytes :: "bytes \<Rightarrow> 'c option"
  DecryptMessageReturnKey :: "'s \<Rightarrow> FullJID \<Rightarrow> 'c \<Rightarrow> bytes option \<times> 's"
  Decrypt :: "'s \<Rightarrow> FullJID \<Rightarrow> 'c \<Rightarrow> bytes option \<times> 's"
  GroupDecrypt :: "'s \<Rightarrow> FullJID \<Rightarrow> FullJID \<Rightarrow> 'c \<Rightarrow> bytes option \<times> 's"
  Process :: "'s \<Rightarrow> FullJID \<Rightarrow> FullJID \<Rightarrow> 'c \<Rightarrow> 's"
  Unmarshal :: "bytes \<Rightarrow> Message option"
  SessionUser :: "'s \<Rightarrow> string"
  RegistrationID :: "'s \<Rightarrow> 16 word"
  IdentityKeyPub :: "'s \<Rightarrow> bytes"
  SignedPreKey :: "'s \<Rightarrow> 'k"
  GetOrGenPreKeys :: "'s \<Rightarrow> nat \<Rightarrow> 'k list \<times> 's"
  MarshalAccount :: "'s \<Rightarrow> bytes option"
  preKeyToNode :: "'k \<Rightarrow> node"
  sendNodeFails :: "node \<Rightarrow> bool"
  downloadMedia :: "HistorySyncNotification \<Rightarrow> bytes option"
  zlibNewReader :: "bytes \<Rightarrow> bool"
  zlibReadAll :: "bytes \<Rightarrow> bytes option"
  UnmarshalHistorySync :: "bytes \<Rightarrow> bool"

text \<open>
  The client: its session, the retry counters and the trace. The counters are a Go map
  from message id to \<open>int\<close>, a missing key reading as 0; a Go \<open>int\<close> is taken as
  the signed 64-bit integer of a 64-bit platform, so that \<open>messageRetries[id]++\<close> wraps
  from \<open>2^63 - 1\<close> to \<open>-2^63\<close> and \<open>retryCount > 1\<close> is a signed comparison. One
  task is modelled running alone: the increment and read of the counter happen under
  \<open>messageRetriesLock\<close> in the source.
\<close>

type_synonym go_int = "64 word"

record 's Client =
  Session :: 's
  messageRetries :: "string \<rightharpoonup> go_int"
  trace :: "event list"

definition emit :: "event \<Rightarrow> 's Client \<Rightarrow> 's Client" where
  "emit e cli = cli\<lparr>trace := trace cli @ [e]\<rparr>"

definition content_bytes :: "node \<Rightarrow> bytes" where
  "content_bytes child = (case Content child of CBytes b \<Rightarrow> b | _ \<Rightarrow> [])"

section \<open>Session decryptor (message.go, lines 33-76)\<close>

definition decryptDM ::
  "('s, 'c, 'k) env \<Rightarrow> node \<Rightarrow> FullJID \<Rightarrow> bool \<Rightarrow> 's Client \<Rightarrow> bytes outcome \<times> 's Client" where
  "decryptDM env child from_jid isPreKey cli0 =
     (let content = content_bytes child;
          cli = emit (CallDecryptDM child from_jid isPreKey) cli0
      in if isPreKey then
           (case NewPreKeySignalMessageFromBytes env content of
              None \<Rightarrow> (Fail FailedParsePreKey, cli)
            | Some preKeyMsg \<Rightarrow>
                (case DecryptMessageReturnKey env (Session cli) from_jid preKeyMsg of
                   (None, s) \<Rightarrow> (Fail FailedDecryptPreKey, cli\<lparr>Session := s\<rparr>)
                 | (Some plaintext, s) \<Rightarrow>
                     (unpadMessage (CheckPadding env) plaintext, cli\<lparr>Session := s\<rparr>)))
         else
           (case NewSignalMessageFromBytes env content of
              None \<Rightarrow> (Fail FailedParseNormal, cli)
            | Some msg \<Rightarrow>
                (case Decrypt env (Session cli) from_jid msg of
                   (None, s) \<Rightarrow> (Fail FailedDecryptNormal, cli\<lparr>Session := s\<rparr>)
                 | (Some plaintext, s) \<Rightarrow>
                     (unpadMessage (CheckPadding env) plaintext, cli\<lparr>Session := s\<rparr>))))"

definition decryptGroupMsg ::
  "('s, 'c, 'k) env \<Rightarrow> node \<Rightarrow> FullJID \<Rightarrow> FullJID \<Rightarrow> 's Client \<Rightarrow> bytes outcome \<times> 's Client" where
  "decryptGroupMsg env child from_jid chat cli0 =
     (let content = content_bytes child;
          cli = emit (CallDecryptGroupMsg child from_jid chat) cli0
      in case NewSenderKeyMessageFromBytes env content of
           None \<Rightarrow> (Fail FailedParseGroup, cli)
         | Some msg \<Rightarrow>
             (case GroupDecrypt env (Session cli) chat from_jid msg of
                (None, s) \<Rightarrow> (Fail FailedDecryptGroup, cli\<lparr>Session := s\<rparr>)
              | (Some plaintext, s) \<Rightarrow>
                  (unpadMessage (CheckPadding env) plaintext, cli\<lparr>Session := s\<rparr>)))"

section \<open>Receipts and the dispatcher (message.go, lines 227-352)\<close>

text \<open>
  Modelled from the spec: \<open>Client.sendNode\<close>, \<open>Client.sendAck\<close> and
  \<open>Client.dispatchEvent\<close> are not in the source. The spec gives them as "transport
  send" (its error is logged by the caller, never retried), the "generic ack" of the
  inbound unit and the "event sink"; here each records its argument in the trace.
  \<open>waBinary.NewJID\<close> builds an address from a user and a server.
\<close>

definition sendNode :: "('s, 'c, 'k) env \<Rightarrow> node \<Rightarrow> 's Client \<Rightarrow> bool \<times> 's Client" where
  "sendNode env n cli = (sendNodeFails env n, emit (SendNode n) cli)"

definition sendAck :: "node \<Rightarrow> 's Client \<Rightarrow> 's Client" where
  "sendAck n cli = emit (SendAck n) cli"

definition dispatchEvent :: "MessageInfo \<Rightarrow> Message \<Rightarrow> 's Client \<Rightarrow> 's Client" where
  "dispatchEvent info msg cli = emit (DispatchEvent info msg) cli"

definition NewJID :: "string \<Rightarrow> string \<Rightarrow> FullJID" where
  "NewJID user server = \<lparr>User = user, Server = server\<rparr>"

definition send_logged :: "('s, 'c, 'k) env \<Rightarrow> node \<Rightarrow> level \<Rightarrow> string \<Rightarrow> 's Client \<Rightarrow> 's Client" where
  "send_logged env n lvl text cli =
     (case sendNode env n cli of
        (True, cli') \<Rightarrow> emit (Log lvl text) cli'
      | (False, cli') \<Rightarrow> cli')"

definition handleSenderKeyDistributionMessage ::
  "('s, 'c, 'k) env \<Rightarrow> FullJID \<Rightarrow> FullJID \<Rightarrow> SenderKeyDistributionMessage \<Rightarrow> 's Client \<Rightarrow> 's Client" where
  "handleSenderKeyDistributionMessage env chat from_jid rawSKDMsg cli =
     (case NewSenderKeyDistributionMessageFromBytes env
             (AxolotlSenderKeyDistributionMessage rawSKDMsg) of
        None \<Rightarrow> emit (Log LError ''Failed to parse sender key distribution message'') cli
      | Some sdkMsg \<Rightarrow> cli\<lparr>Session := Process env (Session cli) chat from_jid sdkMsg\<rparr>)"

definition handleHistorySyncNotification ::
  "('s, 'c, 'k) env \<Rightarrow> HistorySyncNotification \<Rightarrow> 's Client \<Rightarrow> 's Client" where
  "handleHistorySyncNotification env notif cli =
     (case downloadMedia env notif of
        None \<Rightarrow> emit (Log LError ''Failed to download history sync data:'') cli
      | Some data \<Rightarrow>
          if \<not> zlibNewReader env data then
            emit (Log LError ''Failed to create zlib reader for history sync data:'') cli
          else
            (case zlibReadAll env data of
               None \<Rightarrow> emit (Log LError ''Failed to decompress history sync data:'') cli
             | Some rawData \<Rightarrow>
                 if \<not> UnmarshalHistorySync env rawData then
                   emit (Log LError ''Failed to unmarshal history sync data:'') cli
                 else emit (Log LDebug ''Received history sync'') cli))"

definition sendProtocolMessageReceipt ::
  "('s, 'c, 'k) env \<Rightarrow> string \<Rightarrow> string \<Rightarrow> 's Client \<Rightarrow> 's Client" where
  "sendProtocolMessageReceipt env i msgType cli =
     (if length i = 0 then cli
      else
        send_logged env
          (Node ''receipt''
             [''id'' \<mapsto> AString i, ''type'' \<mapsto> AString msgType,
              ''to'' \<mapsto> AJID (NewJID (SessionUser env (Session cli)) (UserServer env))]
             CNil)
          LWarn ''Failed to send acknowledgement for protocol message'' cli)"

definition GetHistorySyncNotification :: "Message \<Rightarrow> HistorySyncNotification option" where
  "GetHistorySyncNotification msg =
     (case protocolMessage msg of None \<Rightarrow> None | Some pm \<Rightarrow> historySyncNotification pm)"

definition handleProtocolMessage ::
  "('s, 'c, 'k) env \<Rightarrow> MessageInfo \<Rightarrow> Message \<Rightarrow> 's Client \<Rightarrow> 's Client" where
  "handleProtocolMessage env info msg cli =
     (let cli1 =
            (case GetHistorySyncNotification msg of
               None \<Rightarrow> cli
             | Some notif \<Rightarrow>
                 sendProtocolMessageReceipt env (ID info) ''hist_sync''
                   (handleHistorySyncNotification env notif cli))
      in if Category info = ''peer''
         then sendProtocolMessageReceipt env (ID info) ''peer_msg'' cli1
         else cli1)"

text \<open>
  \<open>handleDecryptedMessage\<close>. The argument \<open>*info.Chat\<close> of the call in line 279 is
  evaluated before the call: with \<open>info.Chat\<close> nil the task panics there.
\<close>

definition after_key_distribution ::
  "('s, 'c, 'k) env \<Rightarrow> MessageInfo \<Rightarrow> Message \<Rightarrow> 's Client \<Rightarrow> 's Client" where
  "after_key_distribution env info msg cli =
     dispatchEvent info msg
       (if protocolMessage msg \<noteq> None then handleProtocolMessage env info msg cli else cli)"

definition handleDecryptedMessage ::
  "('s, 'c, 'k) env \<Rightarrow> MessageInfo \<Rightarrow> Message \<Rightarrow> 's Client \<Rightarrow> panic option \<times> 's Client" where
  "handleDecryptedMessage env info msg cli =
     (case senderKeyDistributionMessage msg of
        None \<Rightarrow> (None, after_key_distribution env info msg cli)
      | Some skd \<Rightarrow>
          (case Chat info of
             None \<Rightarrow> (Some NilDereference, cli)
           | Some chat \<Rightarrow>
               (None, after_key_distribution env info msg
                        (handleSenderKeyDistributionMessage env chat (From info) skd cli))))"

definition receipt_attrs :: "('s, 'c, 'k) env \<Rightarrow> MessageInfo \<Rightarrow> 's Client \<Rightarrow> (string \<rightharpoonup> attr)" where
  "receipt_attrs env info cli =
     (let isFromMe = (User (From info) = SessionUser env (Session cli));
          attrs = [''id'' \<mapsto> AString (ID info),
                   ''type'' \<mapsto> AString (if isFromMe then ''sender'' else ''inactive'')]
      in case Chat info of
           Some chat \<Rightarrow> attrs(''to'' \<mapsto> AJID chat, ''participant'' \<mapsto> AJID (From info))
         | None \<Rightarrow>
             (case Recipient info of
                Some recipient \<Rightarrow>
                  if isFromMe
                  then attrs(''to'' \<mapsto> AJID (From info), ''recipient'' \<mapsto> AJID recipient)
                  else attrs(''to'' \<mapsto> AJID (From info))
              | None \<Rightarrow> attrs(''to'' \<mapsto> AJID (From info))))"

definition sendMessageReceipt :: "('s, 'c, 'k) env \<Rightarrow> MessageInfo \<Rightarrow> 's Client \<Rightarrow> 's Client" where
  "sendMessageReceipt env info cli =
     send_logged env (Node ''receipt'' (receipt_attrs env info cli) CNil)
       LWarn ''Failed to send receipt'' cli"

section \<open>Retry receipts (message.go, lines 354-410)\<close>

definition retry_count :: "(string \<rightharpoonup> go_int) \<Rightarrow> string \<Rightarrow> go_int" where
  "retry_count m i = (case m i of None \<Rightarrow> 0 | Some c \<Rightarrow> c)"

text \<open>\<open>binary.BigEndian.PutUint16\<close> into the last two of four zero bytes.\<close>

definition registrationIDBytes :: "16 word \<Rightarrow> bytes" where
  "registrationIDBytes r = [0, 0, ucast (drop_bit 8 r), ucast r]"

definition copy_attr :: "node \<Rightarrow> string \<Rightarrow> (string \<rightharpoonup> attr) \<Rightarrow> (string \<rightharpoonup> attr)" where
  "copy_attr n k attrs = (case Attrs n k of None \<Rightarrow> attrs | Some v \<Rightarrow> attrs(k \<mapsto> v))"

definition retry_attrs :: "node \<Rightarrow> string \<Rightarrow> (string \<rightharpoonup> attr)" where
  "retry_attrs n i =
     copy_attr n ''participant''
       (copy_attr n ''recipient''
          [''id'' \<mapsto> AString i, ''type'' \<mapsto> AString ''retry'',
           ''to'' \<mapsto> attr_value (Attrs n) ''from''])"

definition retry_children :: "('s, 'c, 'k) env \<Rightarrow> node \<Rightarrow> string \<Rightarrow> go_int \<Rightarrow> 's \<Rightarrow> node list" where
  "retry_children env n i retryCount s =
     [Node ''retry''
        [''count'' \<mapsto> AInt (sint retryCount), ''id'' \<mapsto> AString i,
         ''t'' \<mapsto> attr_value (Attrs n) ''t'', ''v'' \<mapsto> AInt 1]
        CNil,
      Node ''registration'' Map.empty (CBytes (registrationIDBytes (RegistrationID env s)))]"

definition keys_node :: "('s, 'c, 'k) env \<Rightarrow> 's \<Rightarrow> 'k \<Rightarrow> bytes \<Rightarrow> node" where
  "keys_node env s key deviceIdentity =
     Node ''keys'' Map.empty
       (CNodes
          [Node ''type'' Map.empty (CBytes [DjbType env]),
           Node ''identity'' Map.empty (CBytes (IdentityKeyPub env s)),
           preKeyToNode env key,
           preKeyToNode env (SignedPreKey env s),
           Node ''device-identity'' Map.empty (CBytes deviceIdentity)])"

definition send_retry :: "('s, 'c, 'k) env \<Rightarrow> node \<Rightarrow> 's Client \<Rightarrow> 's Client" where
  "send_retry env payload cli =
     send_logged env payload LError ''Failed to send retry receipt'' cli"

definition sendRetryReceipt ::
  "('s, 'c, 'k) env \<Rightarrow> node \<Rightarrow> 's Client \<Rightarrow> panic option \<times> 's Client" where
  "sendRetryReceipt env n cli0 =
     (let i = attr_string_or_empty (Attrs n) ''id'';
          retryCount = retry_count (messageRetries cli0) i + 1;
          cli = cli0\<lparr>messageRetries := (messageRetries cli0)(i \<mapsto> retryCount)\<rparr>;
          attrs = retry_attrs n i;
          children = retry_children env n i retryCount (Session cli)
      in if 1 <s retryCount then
           (case GetOrGenPreKeys env (Session cli) 1 of
              (keys, s) \<Rightarrow>
                (case MarshalAccount env s of
                   None \<Rightarrow>
                     (None, emit (Log LError ''Failed to marshal account info:'')
                              (cli\<lparr>Session := s\<rparr>))
                 | Some deviceIdentity \<Rightarrow>
                     (case keys of
                        [] \<Rightarrow> (Some IndexOutOfRange, cli\<lparr>Session := s\<rparr>)
                      | key # _ \<Rightarrow>
                          (None,
                           send_retry env
                             (Node ''receipt'' attrs
                                (CNodes (children @ [keys_node env s key deviceIdentity])))
                             (cli\<lparr>Session := s\<rparr>)))))
         else (None, send_retry env (Node ''receipt'' attrs (CNodes children)) cli))"

text \<open>
  Modelled from the spec: \<open>Session.GetOrGenPreKeys\<close> is not in the source. The spec has
  it as "a one-time-prekey generator" whose keys are "freshly generated". With
  \<open>issued s\<close> the set of one-time prekeys that the session \<open>s\<close> has handed out so far,
  a call for \<open>k\<close> keys returns \<open>k\<close> distinct keys, none of them handed out before, and
  leaves a session in which they are handed out.
\<close>

definition generates_fresh :: "('s, 'c, 'k) env \<Rightarrow> ('s \<Rightarrow> 'k set) \<Rightarrow> bool" where
  "generates_fresh env issued \<longleftrightarrow>
     (\<forall>s k. length (fst (GetOrGenPreKeys env s k)) = k \<and>
            distinct (fst (GetOrGenPreKeys env s k)) \<and>
            set (fst (GetOrGenPreKeys env s k)) \<inter> issued s = {} \<and>
            issued (snd (GetOrGenPreKeys env s k)) =
              issued s \<union> set (fst (GetOrGenPreKeys env s k)))"

section \<open>Batch processing (message.go, lines 101-147)\<close>

text \<open>
  One pass of the loop body over a sub-unit either goes on to the next sub-unit
  (\<open>continue\<close>, or the end of the body), with the value of \<open>handled\<close>, or leaves
  \<open>decryptMessages\<close> (\<open>return\<close> after the retry receipt, or a panic).
\<close>

datatype 's step = Continue bool "'s Client" | Stop "panic option" "'s Client"

definition after_decrypt ::
  "('s, 'c, 'k) env \<Rightarrow> MessageInfo \<Rightarrow> node \<Rightarrow> bool \<Rightarrow> bytes outcome \<times> 's Client \<Rightarrow> 's step" where
  "after_decrypt env info n handled res =
     (case res of
        (Panic p, cli) \<Rightarrow> Stop (Some p) cli
      | (Fail e, cli) \<Rightarrow>
          (case sendRetryReceipt env n (emit (Log LWarn ''Error decrypting message'') cli) of
             (p, cli') \<Rightarrow> Stop p cli')
      | (Return decrypted, cli) \<Rightarrow>
          (case Unmarshal env decrypted of
             None \<Rightarrow>
               Continue handled (emit (Log LWarn ''Error unmarshaling decrypted message'') cli)
           | Some msg \<Rightarrow>
               (case handleDecryptedMessage env info msg cli of
                  (Some p, cli') \<Rightarrow> Stop (Some p) cli'
                | (None, cli') \<Rightarrow> Continue True cli')))"

definition unhandled :: "bool \<Rightarrow> 's Client \<Rightarrow> 's step" where
  "unhandled handled cli =
     Continue handled (emit (Log LWarn ''Unhandled encrypted message'') cli)"

definition process_child ::
  "('s, 'c, 'k) env \<Rightarrow> MessageInfo \<Rightarrow> node \<Rightarrow> node \<Rightarrow> bool \<Rightarrow> 's Client \<Rightarrow> 's step" where
  "process_child env info n child handled cli =
     (if Tag child \<noteq> ''enc'' then Continue handled cli
      else
        (case attr_string (Attrs child) ''type'' of
           None \<Rightarrow> Continue handled cli
         | Some encType \<Rightarrow>
             if encType = ''pkmsg'' \<or> encType = ''msg'' then
               after_decrypt env info n handled
                 (decryptDM env child (From info) (encType = ''pkmsg'') cli)
             else
               (case Chat info of
                  None \<Rightarrow> unhandled handled cli
                | Some chat \<Rightarrow>
                    if encType = ''skmsg'' then
                      after_decrypt env info n handled
                        (decryptGroupMsg env child (From info) chat cli)
                    else unhandled handled cli)))"

fun process_children ::
  "('s, 'c, 'k) env \<Rightarrow> MessageInfo \<Rightarrow> node \<Rightarrow> node list \<Rightarrow> bool \<Rightarrow> 's Client
     \<Rightarrow> panic option \<times> 's Client" where
  "process_children env info n [] handled cli =
     (if handled then (None, sendAck n (sendMessageReceipt env info cli)) else (None, cli))"
| "process_children env info n (child # rest) handled cli =
     (case process_child env info n child handled cli of
        Continue handled' cli' \<Rightarrow> process_children env info n rest handled' cli'
      | Stop p cli' \<Rightarrow> (p, cli'))"

definition decryptMessages ::
  "('s, 'c, 'k) env \<Rightarrow> MessageInfo \<Rightarrow> node \<Rightarrow> 's Client \<Rightarrow> panic option \<times> 's Client" where
  "decryptMessages env info n cli =
     (if length (GetChildrenByTag n ''unavailable'') = length (GetChildren n)
      then sendRetryReceipt env n cli
      else process_children env info n (GetChildren n) False
             (emit (Log LDebug ''Decrypting messages'') cli))"

text \<open>
  The loop read as a left fold of its body over the sub-units, from a starting step,
  and what \<open>decryptMessages\<close> returns after the last sub-unit: notation only, for
  stating what the loop does with the sub-units that follow a given one.
\<close>

abbreviation sub_units_in_turn ::
  "('s, 'c, 'k) env \<Rightarrow> MessageInfo \<Rightarrow> node \<Rightarrow> 's step \<Rightarrow> node list \<Rightarrow> 's step" where
  "sub_units_in_turn env info n start children \<equiv>
     foldl (\<lambda>st child.
              case st of
                Continue h cl \<Rightarrow> process_child env info n child h cl
              | Stop p cl \<Rightarrow> Stop p cl)
       start children"

abbreviation batch_result ::
  "('s, 'c, 'k) env \<Rightarrow> MessageInfo \<Rightarrow> node \<Rightarrow> 's step \<Rightarrow> panic option \<times> 's Client" where
  "batch_result env info n st \<equiv>
     (case st of
        Continue h cl \<Rightarrow>
          if h then (None, sendAck n (sendMessageReceipt env info cl)) else (None, cl)
      | Stop p cl \<Rightarrow> (p, cl))"

section \<open>What a trace shows\<close>

fun is_dispatch :: "event \<Rightarrow> bool" where
  "is_dispatch (DispatchEvent _ _) = True"
| "is_dispatch _ = False"

fun is_decrypt :: "event \<Rightarrow> bool" where
  "is_decrypt (CallDecryptDM _ _ _) = True"
| "is_decrypt (CallDecryptGroupMsg _ _ _) = True"
| "is_decrypt _ = False"

fun is_retry :: "event \<Rightarrow> bool" where
  "is_retry (SendNode n) = (Tag n = ''receipt'' \<and> Attrs n ''type'' = Some (AString ''retry''))"
| "is_retry _ = False"

definition quiet :: "event \<Rightarrow> bool" where
  "quiet e \<longleftrightarrow> \<not> is_dispatch e \<and> \<not> is_decrypt e \<and> \<not> is_retry e"

definition dispatches :: "'s Client \<Rightarrow> nat" where
  "dispatches cli = length (filter is_dispatch (trace cli))"

definition decrypt_attempts :: "'s Client \<Rightarrow> nat" where
  "decrypt_attempts cli = length (filter is_decrypt (trace cli))"

definition retries_sent :: "'s Client \<Rightarrow> nat" where
  "retries_sent cli = length (filter is_retry (trace cli))"

fun sent_node :: "event \<Rightarrow> node list" where
  "sent_node (SendNode n) = [n]"
| "sent_node _ = []"

definition sent_nodes :: "'s Client \<Rightarrow> node list" where
  "sent_nodes cli = concat (map sent_node (trace cli))"

text \<open>
  The decrypt call that the loop body makes for a sub-unit, if it makes one: the
  selection of lines 110-126 read on its own, for stating what "the sub-unit decrypts"
  and "the sub-unit fails decryption" mean.
\<close>

definition decrypt_attempt ::
  "('s, 'c, 'k) env \<Rightarrow> MessageInfo \<Rightarrow> node \<Rightarrow> 's Client \<Rightarrow> (bytes outcome \<times> 's Client) option" where
  "decrypt_attempt env info child cli =
     (if Tag child \<noteq> ''enc'' then None
      else
        (case attr_string (Attrs child) ''type'' of
           None \<Rightarrow> None
         | Some encType \<Rightarrow>
             if encType = ''pkmsg'' \<or> encType = ''msg'' then
               Some (decryptDM env child (From info) (encType = ''pkmsg'') cli)
             else
               (case Chat info of
                  None \<Rightarrow> None
                | Some chat \<Rightarrow>
                    if encType = ''skmsg'' then
                      Some (decryptGroupMsg env child (From info) chat cli)
                    else None)))"

section \<open>An example environment\<close>

text \<open>
  A small environment on which the functions above can be run: a ciphertext is a marker
  byte followed by the padded plaintext, and decrypts unless it is empty or its marker
  is 0; a payload decodes unless it is empty, and carries a sender-key distribution
  sub-payload when its first byte is 1.
\<close>

definition toy_cipher :: "nat \<Rightarrow> FullJID \<Rightarrow> bytes \<Rightarrow> bytes option \<times> nat" where
  "toy_cipher s a c =
     (case c of [] \<Rightarrow> (None, s) | b # rest \<Rightarrow> if b = 0 then (None, s) else (Some rest, s))"

definition toy_unmarshal :: "bytes \<Rightarrow> Message option" where
  "toy_unmarshal b =
     (case b of
        [] \<Rightarrow> None
      | k # rest \<Rightarrow>
          Some \<lparr>senderKeyDistributionMessage =
                  (if k = 1 then Some \<lparr>AxolotlSenderKeyDistributionMessage = rest\<rparr> else None),
                protocolMessage = None\<rparr>)"

definition toy_env :: "(nat, bytes, nat) env" where
  "toy_env =
     \<lparr>CheckPadding = True, UserServer = ''s.whatsapp.net'', DjbType = 5,
      NewPreKeySignalMessageFromBytes = Some,
      NewSignalMessageFromBytes = Some,
      NewSenderKeyMessageFromBytes = Some,
      NewSenderKeyDistributionMessageFromBytes = Some,
      DecryptMessageReturnKey = toy_cipher,
      Decrypt = toy_cipher,
      GroupDecrypt = (\<lambda>s chat. toy_cipher s),
      Process = (\<lambda>s chat a c. s),
      Unmarshal = toy_unmarshal,
      SessionUser = (\<lambda>s. ''me''),
      RegistrationID = (\<lambda>s. 0x0102),
      IdentityKeyPub = (\<lambda>s. [9]),
      SignedPreKey = (\<lambda>s. 0),
      GetOrGenPreKeys = (\<lambda>s k. (map (\<lambda>j. Suc (s + j)) [0..<k], s + k)),
      MarshalAccount = (\<lambda>s. Some [8]),
      preKeyToNode = (\<lambda>k. Node ''key'' Map.empty (CBytes [of_nat k])),
      sendNodeFails = (\<lambda>n. False),
      downloadMedia = (\<lambda>notif. None),
      zlibNewReader = (\<lambda>data. True),
      zlibReadAll = Some,
      UnmarshalHistorySync = (\<lambda>raw. True)\<rparr>"

definition failing_marshal_env :: "(nat, bytes, nat) env" where
  "failing_marshal_env = toy_env\<lparr>MarshalAccount := (\<lambda>s. None)\<rparr>"

definition keyless_env :: "(nat, bytes, nat) env" where
  "keyless_env = toy_env\<lparr>GetOrGenPreKeys := (\<lambda>s k. ([], s))\<rparr>"

definition peer :: FullJID where
  "peer = \<lparr>User = ''alice'', Server = ''s.whatsapp.net''\<rparr>"

definition toy_group :: FullJID where
  "toy_group = \<lparr>User = ''123-456'', Server = ''g.us''\<rparr>"

definition direct_info :: MessageInfo where
  "direct_info = zero_MessageInfo\<lparr>From := peer, ID := ''m1'', Timestamp := 17\<rparr>"

definition enc_child :: "string \<Rightarrow> bytes \<Rightarrow> node" where
  "enc_child encType ciphertext =
     Node ''enc'' [''type'' \<mapsto> AString encType] (CBytes ciphertext)"

definition unit_with :: "node list \<Rightarrow> node" where
  "unit_with children =
     Node ''message''
       [''from'' \<mapsto> AJID peer, ''id'' \<mapsto> AString ''m1'', ''t'' \<mapsto> AString ''17'']
       (CNodes children)"

definition fresh_client :: "nat Client" where
  "fresh_client = \<lparr>Session = 0, messageRetries = Map.empty, trace = []\<rparr>"

definition retried_client :: "nat Client" where
  "retried_client = \<lparr>Session = 0, messageRetries = [''m1'' \<mapsto> 1], trace = []\<rparr>"

text \<open>A unit all of whose sub-units are tagged \<open>unavailable\<close>.\<close>

definition unavailable_unit :: node where
  "unavailable_unit =
     unit_with [Node ''unavailable'' Map.empty CNil, Node ''unavailable'' Map.empty CNil]"

text \<open>
  A unit with three ciphertext-bearing sub-units: the first decrypts to the plaintext
  \<open>[2, 7]\<close> (padded with one byte 1), the second fails decryption, the third would
  decrypt. The three states are the client after the first decrypt call, after the
  first payload was handled, and after the second decrypt call.
\<close>

definition first_sub :: node where
  "first_sub = enc_child ''pkmsg'' [1, 2, 7, 1]"

definition second_sub :: node where
  "second_sub = enc_child ''msg'' [0]"

definition third_sub :: node where
  "third_sub = enc_child ''msg'' [1, 2, 7, 1]"

definition three_unit :: node where
  "three_unit = unit_with [first_sub, second_sub, third_sub]"

definition plain_message :: Message where
  "plain_message = \<lparr>senderKeyDistributionMessage = None, protocolMessage = None\<rparr>"

definition state_A :: "nat Client" where
  "state_A =
     fresh_client\<lparr>trace :=
       [Log LDebug ''Decrypting messages'', CallDecryptDM first_sub peer True]\<rparr>"

definition state_B :: "nat Client" where
  "state_B =
     fresh_client\<lparr>trace :=
       [Log LDebug ''Decrypting messages'', CallDecryptDM first_sub peer True,
        DispatchEvent direct_info plain_message]\<rparr>"

definition state_C :: "nat Client" where
  "state_C =
     fresh_client\<lparr>trace :=
       [Log LDebug ''Decrypting messages'', CallDecryptDM first_sub peer True,
        DispatchEvent direct_info plain_message, CallDecryptDM second_sub peer False]\<rparr>"

text \<open>A unit whose second sub-unit has an unknown encryption type, between two that decrypt.\<close>

definition unknown_sub :: node where
  "unknown_sub = enc_child ''frskmsg'' [1]"

definition mixed_unit :: node where
  "mixed_unit = unit_with [first_sub, unknown_sub, third_sub]"

text \<open>The one-time prekeys that the example session \<open>s\<close> has handed out: 1, ..., \<open>s\<close>.\<close>

definition toy_issued :: "nat \<Rightarrow> nat set" where
  "toy_issued s = {k. 0 < k \<and> k \<le> s}"

section \<open>Properties of the padding codec\<close>

lemma HasSuffix_Repeat:
  "HasSuffix s (Repeat b n) \<longleftrightarrow>
     n \<le> length s \<and> (\<forall>x \<in> set (drop (length s - n) s). x = b)"
proof (cases "n \<le> length s")
  case True
  then have len: "length (drop (length s - n) s) = n" by simp
  have "drop (length s - n) s = replicate n b \<longleftrightarrow>
        (\<forall>x \<in> set (drop (length s - n) s). x = b)"
  proof
    assume "drop (length s - n) s = replicate n b"
    then show "\<forall>x \<in> set (drop (length s - n) s). x = b"
      by (metis in_set_replicate)
  next
    assume "\<forall>x \<in> set (drop (length s - n) s). x = b"
    then show "drop (length s - n) s = replicate n b"
      using len by (metis replicate_length_same)
  qed
  with True show ?thesis by (simp add: HasSuffix_def Repeat_def)
next
  case False
  then show ?thesis by (simp add: HasSuffix_def Repeat_def)
qed

text \<open>
  Where the round trip does hold: when the byte drawn is one of 1, ..., 15, it is its
  own low nibble, the padding is that many copies of it, and unpadding returns the
  plaintext.
\<close>

lemma low_nibble_id: "r < 16 \<Longrightarrow> r AND 0xf = (r :: byte)"
  using less_mask_eq [of r 4] by (simp add: mask_eq_exp_minus_1)

lemma unpad_after_pad_nonzero_nibble:
  assumes "r \<noteq> 0" and "r < 16"
  shows "unpad_after_pad True (Some r) x = Return x"
proof -
  have m: "r AND 0xf = r" using assms(2) by (rule low_nibble_id)
  have pos: "0 < unat r" using assms(1) by (simp add: unat_gt_0)
  let ?p = "x @ replicate (unat r) r"
  have ne: "?p \<noteq> []" using pos by simp
  have l: "last ?p = r" using pos by simp
  have "unpadMessage True ?p = Return x"
    using ne pos
    by (simp add: unpadMessage_def Let_def HasSuffix_Repeat strip_def l
        del: last_append replicate_eq_replicate)
  then show ?thesis by (simp add: unpad_after_pad_def padMessage_def m Repeat_def)
qed

text \<open>
  C1, at a failing input. The claim asks that unpadding the padded \<open>x\<close> returns \<open>x\<close> for
  every draw. When the byte drawn is 0 nothing is appended, and \<open>unpadMessage\<close> reads the
  last byte of \<open>x\<close> itself as the padding length: the one-byte plaintext \<open>[1]\<close> comes back
  as the empty plaintext, and the empty plaintext makes \<open>unpadMessage\<close> panic.
\<close>

theorem unpad_after_pad_zero_draw:
  "padMessage (Some 0) [1] = Return [1] \<and>
   unpad_after_pad True (Some 0) [1] = Return [] \<and>
   unpad_after_pad True (Some 0) [] = Panic IndexOutOfRange"
  by code_simp

text \<open>
  C2, at a failing input. The claim asks that every appended byte be the masked value
  \<open>v\<close>, the number of bytes appended. For the byte \<open>0x15\<close> the mask gives \<open>v = 5\<close>, and
  \<open>padMessage\<close> appends five copies of \<open>0x15\<close>, the byte as drawn, not of 5; the final
  byte then encodes 21, not the 5 bytes that were appended.
\<close>

theorem padMessage_appends_unmasked_byte:
  "(0x15 :: byte) AND 0xf = 5 \<and>
   padMessage (Some 0x15) [] = Return [0x15, 0x15, 0x15, 0x15, 0x15] \<and>
   unpad_after_pad True (Some 0x15) [] = Fail BadPadding"
  by code_simp

text \<open>
  C3. With validation enabled and a non-empty buffer whose last byte is \<open>v\<close>:
  \<open>unpadMessage\<close> returns the buffer without its last \<open>v\<close> bytes when the buffer has at
  least \<open>v\<close> bytes and its final \<open>v\<close> bytes all equal \<open>v\<close>, and fails with the
  bad-padding error in every other case.
\<close>

theorem unpadMessage_checked:
  "plaintext \<noteq> [] \<Longrightarrow>
   unpadMessage True plaintext =
     (if unat (last plaintext) \<le> length plaintext \<and>
         (\<forall>b \<in> set (drop (length plaintext - unat (last plaintext)) plaintext).
            b = last plaintext)
      then Return (take (length plaintext - unat (last plaintext)) plaintext)
      else Fail BadPadding)"
  by (simp add: unpadMessage_def Let_def HasSuffix_Repeat strip_def)

theorem unpadMessage_checked_witness:
  "[7, 2, 2 :: byte] \<noteq> [] \<and> unpadMessage True [7, 2, 2] = Return [7] \<and>
   [7, 3, 2 :: byte] \<noteq> [] \<and> unpadMessage True [7, 3, 2] = Fail BadPadding"
  using unpadMessage_checked [of "[7, 2, 2]"] unpadMessage_checked [of "[7, 3, 2]"]
  by simp

text \<open>
  C4, at the failing input. The claim asks that \<open>unpadMessage\<close> return an error on the
  empty byte sequence. The source indexes \<open>plaintext[len(plaintext)-1]\<close> with no length
  check, whether validation is enabled or not: the empty input panics.
\<close>

theorem unpadMessage_empty_panics:
  "unpadMessage check [] = Panic IndexOutOfRange"
  by (simp add: unpadMessage_def strip_def)

section \<open>What each operation adds to the trace\<close>

lemma emit_simps:
  "trace (emit e cli) = trace cli @ [e]"
  "Session (emit e cli) = Session cli"
  "messageRetries (emit e cli) = messageRetries cli"
  by (simp_all add: emit_def)

lemma decryptDM_trace:
  "decryptDM env child f b cli = (r, cli') \<Longrightarrow>
   trace cli' = trace cli @ [CallDecryptDM child f b] \<and> messageRetries cli' = messageRetries cli"
  by (auto simp: decryptDM_def Let_def emit_simps split: option.splits prod.splits if_splits)

lemma decryptGroupMsg_trace:
  "decryptGroupMsg env child f chat cli = (r, cli') \<Longrightarrow>
   trace cli' = trace cli @ [CallDecryptGroupMsg child f chat] \<and>
   messageRetries cli' = messageRetries cli"
  by (auto simp: decryptGroupMsg_def Let_def emit_simps split: option.splits prod.splits)

lemma decrypt_attempt_trace:
  "decrypt_attempt env info child cli = Some (r, cli') \<Longrightarrow>
   (\<exists>e. is_decrypt e \<and> \<not> is_dispatch e \<and> \<not> is_retry e \<and> trace cli' = trace cli @ [e]) \<and>
   messageRetries cli' = messageRetries cli"
  by (auto simp: decrypt_attempt_def split: if_splits option.splits
      dest!: decryptDM_trace decryptGroupMsg_trace)

lemma send_logged_simps:
  "trace (send_logged env n lvl t cli) =
     trace cli @ SendNode n # (if sendNodeFails env n then [Log lvl t] else [])"
  "Session (send_logged env n lvl t cli) = Session cli"
  "messageRetries (send_logged env n lvl t cli) = messageRetries cli"
  by (simp_all add: send_logged_def sendNode_def emit_simps split: bool.splits)

lemma sendProtocolMessageReceipt_trace:
  "msgType \<noteq> ''retry'' \<Longrightarrow>
   \<exists>evs. trace (sendProtocolMessageReceipt env i msgType cli) = trace cli @ evs \<and>
         list_all quiet evs"
  by (simp add: sendProtocolMessageReceipt_def send_logged_simps quiet_def)

lemma sendProtocolMessageReceipt_retries:
  "messageRetries (sendProtocolMessageReceipt env i msgType cli) = messageRetries cli"
  by (simp add: sendProtocolMessageReceipt_def send_logged_simps)

lemma handleHistorySyncNotification_trace:
  "\<exists>evs. trace (handleHistorySyncNotification env notif cli) = trace cli @ evs \<and>
         list_all quiet evs"
  by (simp add: handleHistorySyncNotification_def emit_simps quiet_def split: option.splits)

lemma handleHistorySyncNotification_retries:
  "messageRetries (handleHistorySyncNotification env notif cli) = messageRetries cli"
  by (simp add: handleHistorySyncNotification_def emit_simps split: option.splits)

lemma handleProtocolMessage_trace:
  "\<exists>evs. trace (handleProtocolMessage env info msg cli) = trace cli @ evs \<and> list_all quiet evs"
proof -
  let ?c1 = "case GetHistorySyncNotification msg of
               None \<Rightarrow> cli
             | Some notif \<Rightarrow>
                 sendProtocolMessageReceipt env (ID info) ''hist_sync''
                   (handleHistorySyncNotification env notif cli)"
  have one: "\<exists>evs. trace ?c1 = trace cli @ evs \<and> list_all quiet evs"
  proof (cases "GetHistorySyncNotification msg")
    case None
    then show ?thesis by simp
  next
    case (Some notif)
    obtain e1 where e1: "trace (handleHistorySyncNotification env notif cli) = trace cli @ e1"
        "list_all quiet e1"
      using handleHistorySyncNotification_trace by blast
    obtain e2 where e2: "trace (sendProtocolMessageReceipt env (ID info) ''hist_sync''
          (handleHistorySyncNotification env notif cli)) =
        trace (handleHistorySyncNotification env notif cli) @ e2" "list_all quiet e2"
      using sendProtocolMessageReceipt_trace [of "''hist_sync''" env "ID info"
          "handleHistorySyncNotification env notif cli"] by auto
    show ?thesis using Some e1 e2 by simp
  qed
  then obtain e1 where e1: "trace ?c1 = trace cli @ e1" "list_all quiet e1" by blast
  obtain e2 where e2: "trace (sendProtocolMessageReceipt env (ID info) ''peer_msg'' ?c1) =
        trace ?c1 @ e2" "list_all quiet e2"
    using sendProtocolMessageReceipt_trace [of "''peer_msg''" env "ID info" ?c1] by auto
  show ?thesis
  proof (cases "Category info = ''peer''")
    case True
    then show ?thesis using e1 e2 by (simp add: handleProtocolMessage_def Let_def)
  next
    case False
    then show ?thesis using e1 by (simp add: handleProtocolMessage_def Let_def)
  qed
qed

lemma handleProtocolMessage_retries:
  "messageRetries (handleProtocolMessage env info msg cli) = messageRetries cli"
  by (simp add: handleProtocolMessage_def Let_def sendProtocolMessageReceipt_retries
      handleHistorySyncNotification_retries split: option.splits)

lemma after_key_distribution_trace:
  "\<exists>evs. trace (after_key_distribution env info msg cli) =
           trace cli @ evs @ [DispatchEvent info msg] \<and> list_all quiet evs"
proof (cases "protocolMessage msg")
  case None
  then show ?thesis by (simp add: after_key_distribution_def dispatchEvent_def emit_simps)
next
  case (Some pm)
  obtain evs where "trace (handleProtocolMessage env info msg cli) = trace cli @ evs"
      "list_all quiet evs"
    using handleProtocolMessage_trace by blast
  with Some show ?thesis by (simp add: after_key_distribution_def dispatchEvent_def emit_simps)
qed

lemma after_key_distribution_retries:
  "messageRetries (after_key_distribution env info msg cli) = messageRetries cli"
  by (simp add: after_key_distribution_def dispatchEvent_def emit_simps
      handleProtocolMessage_retries)

lemma handleSenderKeyDistributionMessage_trace:
  "\<exists>evs. trace (handleSenderKeyDistributionMessage env chat f skd cli) = trace cli @ evs \<and>
         list_all quiet evs"
  by (simp add: handleSenderKeyDistributionMessage_def emit_simps quiet_def split: option.splits)

lemma handleSenderKeyDistributionMessage_retries:
  "messageRetries (handleSenderKeyDistributionMessage env chat f skd cli) = messageRetries cli"
  by (simp add: handleSenderKeyDistributionMessage_def emit_simps split: option.splits)

lemma handleDecryptedMessage_trace:
  assumes "handleDecryptedMessage env info msg cli = (None, cli')"
  shows "(\<exists>evs. trace cli' = trace cli @ evs @ [DispatchEvent info msg] \<and> list_all quiet evs) \<and>
         messageRetries cli' = messageRetries cli"
proof (cases "senderKeyDistributionMessage msg")
  case None
  with assms have "cli' = after_key_distribution env info msg cli"
    by (simp add: handleDecryptedMessage_def)
  then show ?thesis
    using after_key_distribution_trace [of env info msg cli]
    by (simp add: after_key_distribution_retries)
next
  case (Some skd)
  with assms obtain chat where chat: "Chat info = Some chat"
    and cli': "cli' = after_key_distribution env info msg
                 (handleSenderKeyDistributionMessage env chat (From info) skd cli)"
    by (auto simp: handleDecryptedMessage_def split: option.splits)
  let ?c = "handleSenderKeyDistributionMessage env chat (From info) skd cli"
  obtain e1 where e1: "trace ?c = trace cli @ e1" "list_all quiet e1"
    using handleSenderKeyDistributionMessage_trace by blast
  obtain e2 where e2: "trace cli' = trace ?c @ e2 @ [DispatchEvent info msg]" "list_all quiet e2"
    using after_key_distribution_trace [of env info msg ?c] cli' by auto
  have "trace cli' = trace cli @ (e1 @ e2) @ [DispatchEvent info msg]" "list_all quiet (e1 @ e2)"
    using e1 e2 by simp_all
  then show ?thesis
    using cli' by (metis after_key_distribution_retries handleSenderKeyDistributionMessage_retries)
qed

lemma sendRetryReceipt_retries:
  "sendRetryReceipt env n cli = (p, cli') \<Longrightarrow>
   messageRetries cli' =
     (messageRetries cli)(attr_string_or_empty (Attrs n) ''id'' \<mapsto>
        retry_count (messageRetries cli) (attr_string_or_empty (Attrs n) ''id'') + 1)"
  by (auto simp: sendRetryReceipt_def Let_def send_retry_def send_logged_simps emit_simps
      split: if_splits prod.splits option.splits list.splits)

lemma retry_attrs_type [simp]:
  "retry_attrs n i ''type'' = Some (AString ''retry'')"
  by (simp add: retry_attrs_def copy_attr_def split: option.splits)

lemma send_retry_eq:
  "send_retry env payload cli =
     cli\<lparr>trace := trace cli @ SendNode payload #
        (if sendNodeFails env payload then [Log LError ''Failed to send retry receipt'']
         else [])\<rparr>"
  by (simp add: send_retry_def send_logged_def sendNode_def emit_def)

lemma send_retry_trace:
  "trace (send_retry env payload cli) =
     trace cli @ SendNode payload #
       (if sendNodeFails env payload then [Log LError ''Failed to send retry receipt''] else [])"
  by (simp add: send_retry_eq)

lemma sendRetryReceipt_first:
  assumes "\<not> 1 <s retry_count (messageRetries cli) (attr_string_or_empty (Attrs n) ''id'') + 1"
  shows "sendRetryReceipt env n cli =
     (None,
      send_retry env
        (Node ''receipt'' (retry_attrs n (attr_string_or_empty (Attrs n) ''id''))
           (CNodes (retry_children env n (attr_string_or_empty (Attrs n) ''id'')
              (retry_count (messageRetries cli) (attr_string_or_empty (Attrs n) ''id'') + 1)
              (Session cli))))
        (cli\<lparr>messageRetries :=
           (messageRetries cli)(attr_string_or_empty (Attrs n) ''id'' \<mapsto>
             retry_count (messageRetries cli) (attr_string_or_empty (Attrs n) ''id'') + 1)\<rparr>))"
  using assms by (simp add: sendRetryReceipt_def Let_def)

lemma sendRetryReceipt_escalated:
  assumes "1 <s retry_count (messageRetries cli) (attr_string_or_empty (Attrs n) ''id'') + 1"
    and "GetOrGenPreKeys env (Session cli) 1 = (keys, s)"
  shows "sendRetryReceipt env n cli =
     (case MarshalAccount env s of
        None \<Rightarrow>
          (None, emit (Log LError ''Failed to marshal account info:'')
             (cli\<lparr>messageRetries :=
                (messageRetries cli)(attr_string_or_empty (Attrs n) ''id'' \<mapsto>
                  retry_count (messageRetries cli) (attr_string_or_empty (Attrs n) ''id'') + 1),
                Session := s\<rparr>))
      | Some di \<Rightarrow>
          (case keys of
             [] \<Rightarrow>
               (Some IndexOutOfRange,
                cli\<lparr>messageRetries :=
                  (messageRetries cli)(attr_string_or_empty (Attrs n) ''id'' \<mapsto>
                    retry_count (messageRetries cli) (attr_string_or_empty (Attrs n) ''id'') + 1),
                  Session := s\<rparr>)
           | key # ks \<Rightarrow>
               (None,
                send_retry env
                  (Node ''receipt'' (retry_attrs n (attr_string_or_empty (Attrs n) ''id''))
                     (CNodes
                        (retry_children env n (attr_string_or_empty (Attrs n) ''id'')
                           (retry_count (messageRetries cli)
                              (attr_string_or_empty (Attrs n) ''id'') + 1)
                           (Session cli) @
                         [keys_node env s key di])))
                  (cli\<lparr>messageRetries :=
                     (messageRetries cli)(attr_string_or_empty (Attrs n) ''id'' \<mapsto>
                       retry_count (messageRetries cli)
                         (attr_string_or_empty (Attrs n) ''id'') + 1),
                     Session := s\<rparr>))))"
  using assms by (simp add: sendRetryReceipt_def Let_def split: option.splits list.splits)

lemma sendRetryReceipt_trace:
  assumes "sendRetryReceipt env n cli = (p, cli')"
    and "GetOrGenPreKeys env (Session cli) 1 = (keys, s)"
  shows "\<exists>evs. trace cli' = trace cli @ evs \<and>
          list_all (\<lambda>e. \<not> is_dispatch e \<and> \<not> is_decrypt e) evs \<and>
          length (filter is_retry evs) =
            (if 1 <s retry_count (messageRetries cli) (attr_string_or_empty (Attrs n) ''id'') + 1 \<and>
                (MarshalAccount env s = None \<or> keys = [])
             then 0 else 1) \<and>
          p = (if 1 <s retry_count (messageRetries cli) (attr_string_or_empty (Attrs n) ''id'') + 1 \<and>
                  MarshalAccount env s \<noteq> None \<and> keys = []
               then Some IndexOutOfRange else None)"
proof (cases "1 <s retry_count (messageRetries cli) (attr_string_or_empty (Attrs n) ''id'') + 1")
  case False
  from sendRetryReceipt_first [OF False, of env] assms(1) False
  show ?thesis by (auto simp: send_retry_trace)
next
  case True
  from sendRetryReceipt_escalated [OF True assms(2)] assms(1) True
  show ?thesis
    by (auto simp: send_retry_trace emit_simps split: option.splits list.splits)
qed

lemma counts_append:
  assumes "trace cli' = trace cli @ evs"
  shows "dispatches cli' = dispatches cli + length (filter is_dispatch evs)"
    and "decrypt_attempts cli' = decrypt_attempts cli + length (filter is_decrypt evs)"
    and "retries_sent cli' = retries_sent cli + length (filter is_retry evs)"
  using assms by (simp_all add: dispatches_def decrypt_attempts_def retries_sent_def)

lemma filter_empty_list_all:
  "list_all (\<lambda>e. \<not> P e) evs \<Longrightarrow> filter P evs = []"
  by (induction evs) auto

lemma retry_count_update [simp]:
  "retry_count (m(i \<mapsto> c)) i = c"
  by (simp add: retry_count_def)

lemma sint_succ:
  "sint (c :: go_int) < 2 ^ 63 - 1 \<Longrightarrow> sint (c + 1) = sint c + 1"
proof -
  assume a: "sint c < 2 ^ 63 - 1"
  have lo: "- (2 ^ 63) \<le> sint c" using sint_ge [of c] by simp
  have "sint (c + 1) = signed_take_bit 63 (sint c + sint (1 :: go_int))"
    using sint_word_ariths(1) [of c 1] by simp
  also have "\<dots> = signed_take_bit 63 (sint c + 1)" by simp
  also have "\<dots> = sint c + 1"
    using a lo by (intro signed_take_bit_int_eq_self) simp_all
  finally show ?thesis .
qed

lemma sendRetryReceipt_counts:
  assumes "sendRetryReceipt env n cli = (p, cli')"
    and "GetOrGenPreKeys env (Session cli) 1 = (keys, s)"
  shows "dispatches cli' = dispatches cli"
    and "decrypt_attempts cli' = decrypt_attempts cli"
    and "retry_count (messageRetries cli') (attr_string_or_empty (Attrs n) ''id'') =
           retry_count (messageRetries cli) (attr_string_or_empty (Attrs n) ''id'') + 1"
    and "retries_sent cli' = retries_sent cli +
           (if 1 <s retry_count (messageRetries cli) (attr_string_or_empty (Attrs n) ''id'') + 1 \<and>
               (MarshalAccount env s = None \<or> keys = [])
            then 0 else 1)"
    and "p = (if 1 <s retry_count (messageRetries cli) (attr_string_or_empty (Attrs n) ''id'') + 1 \<and>
                  MarshalAccount env s \<noteq> None \<and> keys = []
               then Some IndexOutOfRange else None)"
proof -
  obtain evs where evs: "trace cli' = trace cli @ evs"
      "list_all (\<lambda>e. \<not> is_dispatch e \<and> \<not> is_decrypt e) evs"
      "length (filter is_retry evs) =
            (if 1 <s retry_count (messageRetries cli) (attr_string_or_empty (Attrs n) ''id'') + 1 \<and>
                (MarshalAccount env s = None \<or> keys = [])
             then 0 else 1)"
      and p: "p = (if 1 <s retry_count (messageRetries cli) (attr_string_or_empty (Attrs n) ''id'') + 1 \<and>
                  MarshalAccount env s \<noteq> None \<and> keys = []
               then Some IndexOutOfRange else None)"
    using sendRetryReceipt_trace [OF assms] by blast
  have "list_all (\<lambda>e. \<not> is_dispatch e) evs" "list_all (\<lambda>e. \<not> is_decrypt e) evs"
    using evs(2) by (simp_all add: list_all_iff)
  then have f: "filter is_dispatch evs = []" "filter is_decrypt evs = []"
    by (simp_all add: filter_empty_list_all)
  show "dispatches cli' = dispatches cli" "decrypt_attempts cli' = decrypt_attempts cli"
    using counts_append(1,2) [OF evs(1)] f by simp_all
  show "retries_sent cli' = retries_sent cli +
           (if 1 <s retry_count (messageRetries cli) (attr_string_or_empty (Attrs n) ''id'') + 1 \<and>
               (MarshalAccount env s = None \<or> keys = [])
            then 0 else 1)"
    using counts_append(3) [OF evs(1)] evs(3) by simp
  show "retry_count (messageRetries cli') (attr_string_or_empty (Attrs n) ''id'') =
           retry_count (messageRetries cli) (attr_string_or_empty (Attrs n) ''id'') + 1"
    using sendRetryReceipt_retries [OF assms(1)] by simp
  show "p = (if 1 <s retry_count (messageRetries cli) (attr_string_or_empty (Attrs n) ''id'') + 1 \<and>
                  MarshalAccount env s \<noteq> None \<and> keys = []
               then Some IndexOutOfRange else None)"
    by (rule p)
qed

lemmas toy_defs = toy_env_def toy_cipher_def toy_unmarshal_def failing_marshal_env_def peer_def
  toy_group_def direct_info_def enc_child_def unit_with_def fresh_client_def retried_client_def
  zero_MessageInfo_def zero_JID_def

lemmas parse_defs = parseMessageInfo_def parse_addressing_def parse_identification_def
  attr_JID_def attr_string_def attr_string_or_empty_def ParseInt_def is_digit_def digits_value_def

section \<open>Message-info extraction\<close>

text \<open>
  C6, as amended. For a unit whose \<open>from\<close> attribute is a group address, extraction
  fails with a malformed-message error when \<open>participant\<close> is absent or not an address,
  and a successful extraction has the participant as sender and the group address as
  chat. For a direct \<open>from\<close> address a successful extraction has that address as sender
  and no chat. Extraction fails with a malformed-message error when \<open>id\<close> is absent or
  not a string, and when \<open>t\<close> is absent, not a string, or not a base-10 integer in the
  signed 64-bit range. With \<open>from\<close> (and \<open>participant\<close>, for a group) valid, any string
  \<open>id\<close>, the empty string included, and a parsable \<open>t\<close>, extraction succeeds with that
  id and timestamp.
\<close>

theorem parseMessageInfo_contract:
  "(attr_JID (Attrs n) ''from'' = Some f \<and> Server f = gs \<and>
      attr_JID (Attrs n) ''participant'' = None \<longrightarrow>
        parseMessageInfo gs n = Inl NoValidParticipant) \<and>
   (attr_JID (Attrs n) ''from'' = Some f \<and> Server f = gs \<and>
      parseMessageInfo gs n = Inr info \<longrightarrow>
        attr_JID (Attrs n) ''participant'' = Some (From info) \<and> Chat info = Some f) \<and>
   (attr_JID (Attrs n) ''from'' = Some f \<and> Server f \<noteq> gs \<and>
      parseMessageInfo gs n = Inr info \<longrightarrow>
        From info = f \<and> Chat info = None) \<and>
   (attr_string (Attrs n) ''id'' = None \<longrightarrow> isl (parseMessageInfo gs n)) \<and>
   (attr_string (Attrs n) ''t'' = None \<longrightarrow> isl (parseMessageInfo gs n)) \<and>
   (attr_string (Attrs n) ''t'' = Some ts \<and> ParseInt ts = None \<longrightarrow>
        isl (parseMessageInfo gs n)) \<and>
   (attr_JID (Attrs n) ''from'' = Some f \<and>
      (Server f \<noteq> gs \<or> attr_JID (Attrs n) ''participant'' \<noteq> None) \<and>
      attr_string (Attrs n) ''id'' = Some i \<and>
      attr_string (Attrs n) ''t'' = Some ts \<and> ParseInt ts = Some v \<longrightarrow>
        (\<exists>info'. parseMessageInfo gs n = Inr info' \<and> ID info' = i \<and> Timestamp info' = v))"
  by (auto simp: parseMessageInfo_def parse_addressing_def parse_identification_def
      zero_MessageInfo_def split: option.splits if_splits)


theorem parseMessageInfo_contract_witness:
  "parseMessageInfo ''g.us''
     (Node ''message'' [''from'' \<mapsto> AJID toy_group, ''id'' \<mapsto> AString ''m1'',
        ''t'' \<mapsto> AString ''17''] CNil) = Inl NoValidParticipant \<and>
   (\<exists>info. parseMessageInfo ''g.us''
        (Node ''message'' [''from'' \<mapsto> AJID toy_group, ''participant'' \<mapsto> AJID peer,
           ''id'' \<mapsto> AString ''m1'', ''t'' \<mapsto> AString ''17''] CNil) = Inr info \<and>
      From info = peer \<and> Chat info = Some toy_group) \<and>
   (\<exists>info. parseMessageInfo ''g.us'' (unit_with []) = Inr info \<and>
      From info = peer \<and> Chat info = None \<and> ID info = ''m1'' \<and> Timestamp info = 17) \<and>
   isl (parseMessageInfo ''g.us''
     (Node ''message'' [''from'' \<mapsto> AJID peer, ''id'' \<mapsto> AInt 5, ''t'' \<mapsto> AString ''17''] CNil)) \<and>
   isl (parseMessageInfo ''g.us''
     (Node ''message'' [''from'' \<mapsto> AJID peer, ''id'' \<mapsto> AString ''m1''] CNil)) \<and>
   isl (parseMessageInfo ''g.us''
     (Node ''message'' [''from'' \<mapsto> AJID peer, ''id'' \<mapsto> AString ''m1'',
        ''t'' \<mapsto> AString ''0x11''] CNil))"
proof -
  let ?g0 = "Node ''message'' [''from'' \<mapsto> AJID toy_group, ''id'' \<mapsto> AString ''m1'',
        ''t'' \<mapsto> AString ''17''] CNil"
  let ?g1 = "Node ''message'' [''from'' \<mapsto> AJID toy_group, ''participant'' \<mapsto> AJID peer,
           ''id'' \<mapsto> AString ''m1'', ''t'' \<mapsto> AString ''17''] CNil"
  let ?d1 = "Node ''message'' [''from'' \<mapsto> AJID peer, ''id'' \<mapsto> AInt 5,
           ''t'' \<mapsto> AString ''17''] CNil"
  let ?d2 = "Node ''message'' [''from'' \<mapsto> AJID peer, ''id'' \<mapsto> AString ''m1''] CNil"
  let ?d3 = "Node ''message'' [''from'' \<mapsto> AJID peer, ''id'' \<mapsto> AString ''m1'',
        ''t'' \<mapsto> AString ''0x11''] CNil"
  have a: "parseMessageInfo ''g.us'' ?g0 = Inl NoValidParticipant"
    using parseMessageInfo_contract [of ?g0 toy_group "''g.us''", THEN conjunct1]
    by (simp add: attr_JID_def toy_group_def)
  have g1: "\<exists>info'. parseMessageInfo ''g.us'' ?g1 = Inr info' \<and> ID info' = ''m1'' \<and>
      Timestamp info' = 17"
    using parseMessageInfo_contract [of ?g1 toy_group "''g.us''" _ "''17''" "''m1''" 17]
    by (simp add: attr_JID_def attr_string_def toy_group_def ParseInt_def is_digit_def
        digits_value_def)
  then obtain info1 where i1: "parseMessageInfo ''g.us'' ?g1 = Inr info1" by blast
  have b: "From info1 = peer \<and> Chat info1 = Some toy_group"
    using parseMessageInfo_contract [of ?g1 toy_group "''g.us''" info1] i1
    by (simp add: attr_JID_def toy_group_def)
  have d0: "\<exists>info'. parseMessageInfo ''g.us'' (unit_with []) = Inr info' \<and> ID info' = ''m1'' \<and>
      Timestamp info' = 17"
    using parseMessageInfo_contract [of "unit_with []" peer "''g.us''" _ "''17''" "''m1''" 17]
    by (simp add: attr_JID_def attr_string_def unit_with_def peer_def ParseInt_def is_digit_def
        digits_value_def)
  then obtain info2 where i2: "parseMessageInfo ''g.us'' (unit_with []) = Inr info2"
      "ID info2 = ''m1''" "Timestamp info2 = 17" by blast
  have c: "From info2 = peer \<and> Chat info2 = None"
    using parseMessageInfo_contract [of "unit_with []" peer "''g.us''" info2] i2(1)
    by (simp add: attr_JID_def unit_with_def peer_def)
  have d: "isl (parseMessageInfo ''g.us'' ?d1)"
    using parseMessageInfo_contract [of ?d1 _ "''g.us''"] by (simp add: attr_string_def)
  have e: "isl (parseMessageInfo ''g.us'' ?d2)"
    using parseMessageInfo_contract [of ?d2 _ "''g.us''"] by (simp add: attr_string_def)
  have f: "isl (parseMessageInfo ''g.us'' ?d3)"
    using parseMessageInfo_contract [of ?d3 _ "''g.us''" _ "''0x11''"]
    by (simp add: attr_string_def ParseInt_def is_digit_def digits_value_def)
  show ?thesis using a b c d e f i1 i2 by blast
qed

text \<open>
  The claim as the spec words it (a valid \<open>id\<close> is a non-empty string) fails on a unit
  whose \<open>id\<close> is the empty string: the source only asserts that the attribute is a
  string, and extraction succeeds with an empty id.
\<close>

theorem parseMessageInfo_accepts_empty_id:
  "attr_string (Attrs (Node ''message''
       [''from'' \<mapsto> AJID peer, ''id'' \<mapsto> AString [], ''t'' \<mapsto> AString ''17''] CNil)) ''id''
     = Some [] \<and>
   parseMessageInfo ''g.us''
     (Node ''message''
        [''from'' \<mapsto> AJID peer, ''id'' \<mapsto> AString [], ''t'' \<mapsto> AString ''17''] CNil)
     = Inr (zero_MessageInfo\<lparr>From := peer, Timestamp := 17\<rparr>)"
  by (simp add: parse_defs zero_MessageInfo_def peer_def)

section \<open>Retry escalation\<close>

text \<open>
  C7, as amended. Let \<open>c\<close> be the retry count of the message id after the increment
  that every trigger makes and stores. The first trigger for an id (no retry counted
  so far, \<open>c = 1\<close>) sends one retry unit whose children are \<open>retry\<close> and
  \<open>registration\<close>, with no \<open>keys\<close> child. A trigger with \<open>c\<close> greater than 1 whose
  device-identity record serialises sends one retry unit whose children are \<open>retry\<close>,
  \<open>registration\<close> and \<open>keys\<close>, the \<open>keys\<close> child holding the curve-type marker byte, the
  local identity public key, exactly one one-time prekey (the first that the prekey
  generator returned in this trigger), the signed prekey and the serialised
  device-identity record; that prekey is freshly generated, never handed out before,
  when the generator is the one the spec describes. A trigger with \<open>c\<close> greater than 1
  whose device-identity record does not serialise logs the failure and sends no retry
  unit; one whose record serialises while the generator returned no key panics on
  \<open>keys[0]\<close> and sends none either.
\<close>

theorem sendRetryReceipt_escalation:
  assumes "i = attr_string_or_empty (Attrs n) ''id''"
    and "c = retry_count (messageRetries cli) i + 1"
    and "GetOrGenPreKeys env (Session cli) 1 = (keys, s)"
  shows
   "(retry_count (messageRetries cli) i = 0 \<longrightarrow>
       sendRetryReceipt env n cli =
         (None,
          cli\<lparr>messageRetries := (messageRetries cli)(i \<mapsto> 1),
              trace := trace cli @
                SendNode
                  (Node ''receipt'' (retry_attrs n i)
                     (CNodes
                        [Node ''retry''
                           [''count'' \<mapsto> AInt 1, ''id'' \<mapsto> AString i,
                            ''t'' \<mapsto> attr_value (Attrs n) ''t'', ''v'' \<mapsto> AInt 1] CNil,
                         Node ''registration'' Map.empty
                           (CBytes (registrationIDBytes (RegistrationID env (Session cli))))])) #
                (if sendNodeFails env
                      (Node ''receipt'' (retry_attrs n i)
                         (CNodes
                            [Node ''retry''
                               [''count'' \<mapsto> AInt 1, ''id'' \<mapsto> AString i,
                                ''t'' \<mapsto> attr_value (Attrs n) ''t'', ''v'' \<mapsto> AInt 1] CNil,
                             Node ''registration'' Map.empty
                               (CBytes (registrationIDBytes (RegistrationID env (Session cli))))]))
                 then [Log LError ''Failed to send retry receipt''] else [])\<rparr>)) \<and>
    (1 <s c \<and> MarshalAccount env s = Some deviceIdentity \<and> keys = key # ks \<longrightarrow>
       sendRetryReceipt env n cli =
         (None,
          cli\<lparr>messageRetries := (messageRetries cli)(i \<mapsto> c), Session := s,
              trace := trace cli @
                SendNode
                  (Node ''receipt'' (retry_attrs n i)
                     (CNodes
                        [Node ''retry''
                           [''count'' \<mapsto> AInt (sint c), ''id'' \<mapsto> AString i,
                            ''t'' \<mapsto> attr_value (Attrs n) ''t'', ''v'' \<mapsto> AInt 1] CNil,
                         Node ''registration'' Map.empty
                           (CBytes (registrationIDBytes (RegistrationID env (Session cli)))),
                         Node ''keys'' Map.empty
                           (CNodes
                              [Node ''type'' Map.empty (CBytes [DjbType env]),
                               Node ''identity'' Map.empty (CBytes (IdentityKeyPub env s)),
                               preKeyToNode env key,
                               preKeyToNode env (SignedPreKey env s),
                               Node ''device-identity'' Map.empty (CBytes deviceIdentity)])])) #
                (if sendNodeFails env
                      (Node ''receipt'' (retry_attrs n i)
                         (CNodes
                            [Node ''retry''
                               [''count'' \<mapsto> AInt (sint c), ''id'' \<mapsto> AString i,
                                ''t'' \<mapsto> attr_value (Attrs n) ''t'', ''v'' \<mapsto> AInt 1] CNil,
                             Node ''registration'' Map.empty
                               (CBytes (registrationIDBytes (RegistrationID env (Session cli)))),
                             Node ''keys'' Map.empty
                               (CNodes
                                  [Node ''type'' Map.empty (CBytes [DjbType env]),
                                   Node ''identity'' Map.empty (CBytes (IdentityKeyPub env s)),
                                   preKeyToNode env key,
                                   preKeyToNode env (SignedPreKey env s),
                                   Node ''device-identity'' Map.empty
                                     (CBytes deviceIdentity)])]))
                 then [Log LError ''Failed to send retry receipt''] else [])\<rparr>)) \<and>
    (1 <s c \<and> MarshalAccount env s = None \<longrightarrow>
       sendRetryReceipt env n cli =
         (None,
          cli\<lparr>messageRetries := (messageRetries cli)(i \<mapsto> c), Session := s,
              trace := trace cli @ [Log LError ''Failed to marshal account info:'']\<rparr>)) \<and>
    (1 <s c \<and> MarshalAccount env s = Some deviceIdentity \<and> keys = [] \<longrightarrow>
       sendRetryReceipt env n cli =
         (Some IndexOutOfRange,
          cli\<lparr>messageRetries := (messageRetries cli)(i \<mapsto> c), Session := s\<rparr>)) \<and>
    (generates_fresh env issued \<longrightarrow>
       (\<exists>k. keys = [k] \<and> k \<notin> issued (Session cli) \<and> k \<in> issued s))"
proof (intro conjI impI)
  assume z: "retry_count (messageRetries cli) i = 0"
  then have "\<not> 1 <s retry_count (messageRetries cli) (attr_string_or_empty (Attrs n) ''id'') + 1"
    using assms(1) by (simp add: word_sless_alt)
  from sendRetryReceipt_first [OF this, of env] z assms(1)
  show "sendRetryReceipt env n cli =
         (None,
          cli\<lparr>messageRetries := (messageRetries cli)(i \<mapsto> 1),
              trace := trace cli @
                SendNode
                  (Node ''receipt'' (retry_attrs n i)
                     (CNodes
                        [Node ''retry''
                           [''count'' \<mapsto> AInt 1, ''id'' \<mapsto> AString i,
                            ''t'' \<mapsto> attr_value (Attrs n) ''t'', ''v'' \<mapsto> AInt 1] CNil,
                         Node ''registration'' Map.empty
                           (CBytes (registrationIDBytes (RegistrationID env (Session cli))))])) #
                (if sendNodeFails env
                      (Node ''receipt'' (retry_attrs n i)
                         (CNodes
                            [Node ''retry''
                               [''count'' \<mapsto> AInt 1, ''id'' \<mapsto> AString i,
                                ''t'' \<mapsto> attr_value (Attrs n) ''t'', ''v'' \<mapsto> AInt 1] CNil,
                             Node ''registration'' Map.empty
                               (CBytes (registrationIDBytes (RegistrationID env (Session cli))))]))
                 then [Log LError ''Failed to send retry receipt''] else [])\<rparr>)"
    by (simp add: send_retry_eq retry_children_def)
next
  assume a: "1 <s c \<and> MarshalAccount env s = Some deviceIdentity \<and> keys = key # ks"
  then have e: "1 <s retry_count (messageRetries cli) (attr_string_or_empty (Attrs n) ''id'') + 1"
    using assms(1,2) by simp
  from sendRetryReceipt_escalated [OF e assms(3)] a assms(1,2)
  show "sendRetryReceipt env n cli =
         (None,
          cli\<lparr>messageRetries := (messageRetries cli)(i \<mapsto> c), Session := s,
              trace := trace cli @
                SendNode
                  (Node ''receipt'' (retry_attrs n i)
                     (CNodes
                        [Node ''retry''
                           [''count'' \<mapsto> AInt (sint c), ''id'' \<mapsto> AString i,
                            ''t'' \<mapsto> attr_value (Attrs n) ''t'', ''v'' \<mapsto> AInt 1] CNil,
                         Node ''registration'' Map.empty
                           (CBytes (registrationIDBytes (RegistrationID env (Session cli)))),
                         Node ''keys'' Map.empty
                           (CNodes
                              [Node ''type'' Map.empty (CBytes [DjbType env]),
                               Node ''identity'' Map.empty (CBytes (IdentityKeyPub env s)),
                               preKeyToNode env key,
                               preKeyToNode env (SignedPreKey env s),
                               Node ''device-identity'' Map.empty (CBytes deviceIdentity)])])) #
                (if sendNodeFails env
                      (Node ''receipt'' (retry_attrs n i)
                         (CNodes
                            [Node ''retry''
                               [''count'' \<mapsto> AInt (sint c), ''id'' \<mapsto> AString i,
                                ''t'' \<mapsto> attr_value (Attrs n) ''t'', ''v'' \<mapsto> AInt 1] CNil,
                             Node ''registration'' Map.empty
                               (CBytes (registrationIDBytes (RegistrationID env (Session cli)))),
                             Node ''keys'' Map.empty
                               (CNodes
                                  [Node ''type'' Map.empty (CBytes [DjbType env]),
                                   Node ''identity'' Map.empty (CBytes (IdentityKeyPub env s)),
                                   preKeyToNode env key,
                                   preKeyToNode env (SignedPreKey env s),
                                   Node ''device-identity'' Map.empty
                                     (CBytes deviceIdentity)])]))
                 then [Log LError ''Failed to send retry receipt''] else [])\<rparr>)"
    by (simp add: send_retry_eq retry_children_def keys_node_def)
next
  assume a: "1 <s c \<and> MarshalAccount env s = None"
  then have e: "1 <s retry_count (messageRetries cli) (attr_string_or_empty (Attrs n) ''id'') + 1"
    using assms(1,2) by simp
  from sendRetryReceipt_escalated [OF e assms(3)] a assms(1,2)
  show "sendRetryReceipt env n cli =
         (None,
          cli\<lparr>messageRetries := (messageRetries cli)(i \<mapsto> c), Session := s,
              trace := trace cli @ [Log LError ''Failed to marshal account info:'']\<rparr>)"
    by (simp add: emit_def)
next
  assume a: "1 <s c \<and> MarshalAccount env s = Some deviceIdentity \<and> keys = []"
  then have e: "1 <s retry_count (messageRetries cli) (attr_string_or_empty (Attrs n) ''id'') + 1"
    using assms(1,2) by simp
  from sendRetryReceipt_escalated [OF e assms(3)] a assms(1,2)
  show "sendRetryReceipt env n cli =
         (Some IndexOutOfRange,
          cli\<lparr>messageRetries := (messageRetries cli)(i \<mapsto> c), Session := s\<rparr>)"
    by simp
next
  assume g: "generates_fresh env issued"
  have l: "length keys = 1" "set keys \<inter> issued (Session cli) = {}"
    "issued s = issued (Session cli) \<union> set keys"
    using g [unfolded generates_fresh_def, rule_format, of "Session cli" 1] assms(3)
    by simp_all
  from l(1) obtain k where k: "keys = [k]"
    by (cases keys) auto
  with l(2,3) show "\<exists>k. keys = [k] \<and> k \<notin> issued (Session cli) \<and> k \<in> issued s"
    by auto
qed

lemma toy_generates_fresh: "generates_fresh toy_env toy_issued"
proof -
  have g: "GetOrGenPreKeys toy_env s k = (map (\<lambda>j. Suc (s + j)) [0..<k], s + k)" for s k
    by (simp add: toy_env_def)
  have d: "distinct (map (\<lambda>j. Suc (s + j)) [0..<k])" for s k :: nat
    by (simp add: distinct_map inj_on_def)
  have i: "toy_issued (s + k) = toy_issued s \<union> (\<lambda>j. Suc (s + j)) ` {0..<k}" for s k
  proof (rule set_eqI)
    fix x
    show "x \<in> toy_issued (s + k) \<longleftrightarrow> x \<in> toy_issued s \<union> (\<lambda>j. Suc (s + j)) ` {0..<k}"
    proof
      assume a: "x \<in> toy_issued (s + k)"
      show "x \<in> toy_issued s \<union> (\<lambda>j. Suc (s + j)) ` {0..<k}"
      proof (cases "x \<le> s")
        case True
        with a show ?thesis by (simp add: toy_issued_def)
      next
        case False
        with a have "x = Suc (s + (x - Suc s))" "x - Suc s \<in> {0..<k}"
          by (auto simp: toy_issued_def)
        then show ?thesis by blast
      qed
    next
      assume "x \<in> toy_issued s \<union> (\<lambda>j. Suc (s + j)) ` {0..<k}"
      then show "x \<in> toy_issued (s + k)" by (auto simp: toy_issued_def)
    qed
  qed
  have e: "(\<lambda>j. Suc (s + j)) ` {0..<k} \<inter> toy_issued s = {}" for s k
    by (auto simp: toy_issued_def)
  show ?thesis
    unfolding generates_fresh_def by (simp add: g d i e)
qed

lemma unit_id: "''m1'' = attr_string_or_empty (Attrs (unit_with cs)) ''id''"
  by (simp add: unit_with_def attr_string_or_empty_def attr_string_def)

theorem sendRetryReceipt_escalation_witness:
  "retry_count (messageRetries fresh_client) ''m1'' = 0 \<and>
   fst (sendRetryReceipt toy_env (unit_with []) fresh_client) = None \<and>
   map (\<lambda>p. map Tag (GetChildren p))
       (sent_nodes (snd (sendRetryReceipt toy_env (unit_with []) fresh_client))) =
     [[''retry'', ''registration'']] \<and>
   (1 :: go_int) <s 2 \<and> MarshalAccount toy_env 1 = Some [8] \<and>
   GetOrGenPreKeys toy_env (Session retried_client) 1 = ([1], 1) \<and>
   fst (sendRetryReceipt toy_env (unit_with []) retried_client) = None \<and>
   map GetChildren (sent_nodes (snd (sendRetryReceipt toy_env (unit_with []) retried_client))) =
     [[Node ''retry''
         [''count'' \<mapsto> AInt 2, ''id'' \<mapsto> AString ''m1'', ''t'' \<mapsto> AString ''17'',
          ''v'' \<mapsto> AInt 1] CNil,
       Node ''registration'' Map.empty (CBytes [0, 0, 1, 2]),
       Node ''keys'' Map.empty
         (CNodes
            [Node ''type'' Map.empty (CBytes [5]),
             Node ''identity'' Map.empty (CBytes [9]),
             Node ''key'' Map.empty (CBytes [1]),
             Node ''key'' Map.empty (CBytes [0]),
             Node ''device-identity'' Map.empty (CBytes [8])])]] \<and>
   MarshalAccount failing_marshal_env 1 = None \<and>
   sendRetryReceipt failing_marshal_env (unit_with []) retried_client =
     (None,
      retried_client\<lparr>messageRetries := [''m1'' \<mapsto> 2], Session := 1,
        trace := [Log LError ''Failed to marshal account info:'']\<rparr>) \<and>
   GetOrGenPreKeys keyless_env (Session retried_client) 1 = ([], 0) \<and>
   sendRetryReceipt keyless_env (unit_with []) retried_client =
     (Some IndexOutOfRange, retried_client\<lparr>messageRetries := [''m1'' \<mapsto> 2]\<rparr>) \<and>
   generates_fresh toy_env toy_issued \<and>
   1 \<notin> toy_issued (Session retried_client) \<and> 1 \<in> toy_issued 1"
proof -
  have c0: "retry_count (messageRetries fresh_client) ''m1'' = 0"
    by (simp add: retry_count_def fresh_client_def)
  have c1: "(1 :: go_int) = retry_count (messageRetries fresh_client) ''m1'' + 1"
    by (simp add: c0)
  have c2: "(2 :: go_int) = retry_count (messageRetries retried_client) ''m1'' + 1"
    by (simp add: retry_count_def retried_client_def)
  have lt: "(1 :: go_int) <s 2" by (simp add: word_sless_alt)
  have g0: "GetOrGenPreKeys toy_env (Session fresh_client) 1 = ([1], 1)"
    by (simp add: toy_env_def fresh_client_def)
  have g1: "GetOrGenPreKeys toy_env (Session retried_client) 1 = ([1], 1)"
    by (simp add: toy_env_def retried_client_def)
  have g2: "GetOrGenPreKeys failing_marshal_env (Session retried_client) 1 = ([1], 1)"
    by (simp add: failing_marshal_env_def toy_env_def retried_client_def)
  have g3: "GetOrGenPreKeys keyless_env (Session retried_client) 1 = ([], 0)"
    by (simp add: keyless_env_def toy_env_def retried_client_def)
  have m1: "MarshalAccount toy_env 1 = Some [8]" by (simp add: toy_env_def)
  have m2: "MarshalAccount failing_marshal_env 1 = None"
    by (simp add: failing_marshal_env_def toy_env_def)
  have m3: "MarshalAccount keyless_env 0 = Some [8]"
    by (simp add: keyless_env_def toy_env_def)
  have first: "sendRetryReceipt toy_env (unit_with []) fresh_client =
      (None,
       fresh_client\<lparr>messageRetries := (messageRetries fresh_client)(''m1'' \<mapsto> 1),
         trace := trace fresh_client @
           SendNode
             (Node ''receipt'' (retry_attrs (unit_with []) ''m1'')
                (CNodes
                   [Node ''retry''
                      [''count'' \<mapsto> AInt 1, ''id'' \<mapsto> AString ''m1'',
                       ''t'' \<mapsto> attr_value (Attrs (unit_with [])) ''t'', ''v'' \<mapsto> AInt 1] CNil,
                    Node ''registration'' Map.empty
                      (CBytes (registrationIDBytes
                         (RegistrationID toy_env (Session fresh_client))))])) # []\<rparr>)"
    using sendRetryReceipt_escalation [where env = toy_env and cli = fresh_client
        and n = "unit_with []" and i = "''m1''" and c = 1 and keys = "[1]" and s = 1,
        OF unit_id c1 g0, THEN conjunct1] c0
    by (simp add: toy_env_def)
  have second: "sendRetryReceipt toy_env (unit_with []) retried_client =
      (None,
       retried_client\<lparr>messageRetries := (messageRetries retried_client)(''m1'' \<mapsto> 2),
         Session := 1,
         trace := trace retried_client @
           SendNode
             (Node ''receipt'' (retry_attrs (unit_with []) ''m1'')
                (CNodes
                   [Node ''retry''
                      [''count'' \<mapsto> AInt 2, ''id'' \<mapsto> AString ''m1'',
                       ''t'' \<mapsto> attr_value (Attrs (unit_with [])) ''t'', ''v'' \<mapsto> AInt 1] CNil,
                    Node ''registration'' Map.empty
                      (CBytes (registrationIDBytes
                         (RegistrationID toy_env (Session retried_client)))),
                    Node ''keys'' Map.empty
                      (CNodes
                         [Node ''type'' Map.empty (CBytes [5]),
                          Node ''identity'' Map.empty (CBytes [9]),
                          Node ''key'' Map.empty (CBytes [1]),
                          Node ''key'' Map.empty (CBytes [0]),
                          Node ''device-identity'' Map.empty (CBytes [8])])])) # []\<rparr>)"
    using sendRetryReceipt_escalation [where env = toy_env and cli = retried_client
        and n = "unit_with []" and i = "''m1''" and c = 2 and keys = "[1]" and s = 1
        and key = 1 and ks = "[]" and deviceIdentity = "[8]",
        OF unit_id c2 g1, THEN conjunct2, THEN conjunct1] lt m1
    by (simp add: toy_env_def)
  have third: "sendRetryReceipt failing_marshal_env (unit_with []) retried_client =
     (None,
      retried_client\<lparr>messageRetries := [''m1'' \<mapsto> 2], Session := 1,
        trace := [Log LError ''Failed to marshal account info:'']\<rparr>)"
    using sendRetryReceipt_escalation [where env = failing_marshal_env and cli = retried_client
        and n = "unit_with []" and i = "''m1''" and c = 2 and keys = "[1]" and s = 1,
        OF unit_id c2 g2, THEN conjunct2, THEN conjunct2, THEN conjunct1] lt m2
    by (simp add: retried_client_def)
  have fourth: "sendRetryReceipt keyless_env (unit_with []) retried_client =
     (Some IndexOutOfRange, retried_client\<lparr>messageRetries := [''m1'' \<mapsto> 2]\<rparr>)"
    using sendRetryReceipt_escalation [where env = keyless_env and cli = retried_client
        and n = "unit_with []" and i = "''m1''" and c = 2 and keys = "[]" and s = 0
        and deviceIdentity = "[8]",
        OF unit_id c2 g3, THEN conjunct2, THEN conjunct2, THEN conjunct2, THEN conjunct1] lt m3
    by (simp add: retried_client_def)
  have fifth: "1 \<notin> toy_issued (Session retried_client) \<and> 1 \<in> toy_issued 1"
    using sendRetryReceipt_escalation [where env = toy_env and cli = retried_client
        and n = "unit_with []" and i = "''m1''" and c = 2 and keys = "[1]" and s = 1
        and issued = toy_issued,
        OF unit_id c2 g1, THEN conjunct2, THEN conjunct2, THEN conjunct2, THEN conjunct2]
      toy_generates_fresh
    by simp
  have t0: "trace fresh_client = []" by (simp add: fresh_client_def)
  have t1: "trace retried_client = []" "Session retried_client = 0"
    by (simp_all add: retried_client_def)
  have a: "fst (sendRetryReceipt toy_env (unit_with []) fresh_client) = None"
    "map (\<lambda>p. map Tag (GetChildren p))
       (sent_nodes (snd (sendRetryReceipt toy_env (unit_with []) fresh_client))) =
     [[''retry'', ''registration'']]"
    unfolding first by (simp_all add: sent_nodes_def GetChildren_def t0)
  have b: "fst (sendRetryReceipt toy_env (unit_with []) retried_client) = None"
    "map GetChildren (sent_nodes (snd (sendRetryReceipt toy_env (unit_with []) retried_client))) =
     [[Node ''retry''
         [''count'' \<mapsto> AInt 2, ''id'' \<mapsto> AString ''m1'', ''t'' \<mapsto> AString ''17'',
          ''v'' \<mapsto> AInt 1] CNil,
       Node ''registration'' Map.empty (CBytes [0, 0, 1, 2]),
       Node ''keys'' Map.empty
         (CNodes
            [Node ''type'' Map.empty (CBytes [5]),
             Node ''identity'' Map.empty (CBytes [9]),
             Node ''key'' Map.empty (CBytes [1]),
             Node ''key'' Map.empty (CBytes [0]),
             Node ''device-identity'' Map.empty (CBytes [8])])]]"
    unfolding second
    by (simp_all add: sent_nodes_def GetChildren_def t1 unit_with_def
        attr_value_def registrationIDBytes_def toy_env_def)
  show ?thesis
    using c0 a b lt m1 g1 m2 third g3 fourth toy_generates_fresh fifth by (intro conjI) simp_all
qed

text \<open>
  The claim as stated fails when the device-identity record does not serialise: the
  second trigger for an id then logs the failure and returns without sending any
  retry unit.
\<close>

theorem sendRetryReceipt_marshal_failure:
  "(1 :: go_int) <s retry_count (messageRetries retried_client) ''m1'' + 1 \<and>
   sendRetryReceipt failing_marshal_env (unit_with []) retried_client =
     (None,
      \<lparr>Session = 1, messageRetries = [''m1'' \<mapsto> 2],
       trace = [Log LError ''Failed to marshal account info:'']\<rparr>) \<and>
   sent_nodes
     \<lparr>Session = 1 :: nat, messageRetries = [''m1'' \<mapsto> 2],
      trace = [Log LError ''Failed to marshal account info:'']\<rparr> = []"
  by (simp add: sendRetryReceipt_def Let_def toy_defs retry_count_def attr_string_or_empty_def
      attr_string_def emit_def sent_nodes_def word_sless_alt)

section \<open>Batch processing\<close>

lemma sub_units_in_turn_Stop:
  "sub_units_in_turn env info n (Stop p cl) cs = Stop p cl"
  by (induction cs) simp_all

lemma process_children_fold:
  "process_children env info n cs h cli =
     batch_result env info n (sub_units_in_turn env info n (Continue h cli) cs)"
proof (induction cs arbitrary: h cli)
  case Nil
  show ?case by simp
next
  case (Cons c cs)
  show ?case
  proof (cases "process_child env info n c h cli")
    case (Continue h' cli')
    then show ?thesis using Cons.IH [of h' cli'] by simp
  next
    case (Stop p cli')
    then show ?thesis by (simp add: sub_units_in_turn_Stop)
  qed
qed

lemma process_child_attempt:
  "decrypt_attempt env info child cli = Some r \<Longrightarrow>
   process_child env info n child handled cli = after_decrypt env info n handled r"
  by (auto simp: decrypt_attempt_def process_child_def split: if_splits option.splits)

lemma decrypt_attempt_enc:
  "decrypt_attempt env info child cli = Some r \<Longrightarrow> Tag child = ''enc''"
  by (auto simp: decrypt_attempt_def split: if_splits)

lemma not_all_unavailable:
  assumes "GetChildren n = pre @ child # rest" and "Tag child = ''enc''"
  shows "length (GetChildrenByTag n ''unavailable'') \<noteq> length (GetChildren n)"
proof -
  have "length (filter (\<lambda>c. Tag c = ''unavailable'') (pre @ child # rest)) \<le>
        length pre + length rest"
    using assms(2) by (simp add: add_le_mono)
  then show ?thesis by (simp add: GetChildrenByTag_def assms(1))
qed

text \<open>
  C9. Let a batch reach, with the loop still running, a ciphertext-bearing sub-unit
  (tag \<open>enc\<close>) whose encryption type is a string other than \<open>pkmsg\<close>, \<open>msg\<close> and
  \<open>skmsg\<close>. The loop body adds one warning line to the log for it and nothing else,
  no decrypt call, no dispatch, no retry, and goes on with \<open>handled\<close> unchanged; and
  \<open>decryptMessages\<close> returns what processing each of the remaining sub-units in turn
  from that state gives, ending in the receipt and the ack when a sub-unit was handled.
\<close>

theorem decryptMessages_unhandled_type:
  assumes "GetChildren n = pre @ child # rest"
    and "Tag child = ''enc''"
    and "attr_string (Attrs child) ''type'' = Some encType"
    and "encType \<noteq> ''pkmsg''" and "encType \<noteq> ''msg''" and "encType \<noteq> ''skmsg''"
    and "sub_units_in_turn env info n
           (Continue False (cli\<lparr>trace := trace cli @ [Log LDebug ''Decrypting messages'']\<rparr>))
           pre = Continue handled cli'"
  shows "process_child env info n child handled cli' =
           Continue handled
             (cli'\<lparr>trace := trace cli' @ [Log LWarn ''Unhandled encrypted message'']\<rparr>) \<and>
         decryptMessages env info n cli =
           batch_result env info n
             (sub_units_in_turn env info n
                (Continue handled
                   (cli'\<lparr>trace := trace cli' @ [Log LWarn ''Unhandled encrypted message'']\<rparr>))
                rest)"
proof -
  have body: "process_child env info n child handled cli' =
           Continue handled
             (cli'\<lparr>trace := trace cli' @ [Log LWarn ''Unhandled encrypted message'']\<rparr>)"
    using assms(2-6)
    by (simp add: process_child_def unhandled_def emit_def split: option.splits)
  have "decryptMessages env info n cli =
      process_children env info n (pre @ child # rest) False
        (cli\<lparr>trace := trace cli @ [Log LDebug ''Decrypting messages'']\<rparr>)"
    using not_all_unavailable [OF assms(1,2)]
    by (simp add: decryptMessages_def assms(1) emit_def)
  also have "\<dots> = batch_result env info n
      (sub_units_in_turn env info n
         (Continue False (cli\<lparr>trace := trace cli @ [Log LDebug ''Decrypting messages'']\<rparr>))
         (pre @ child # rest))"
    by (rule process_children_fold)
  also have "\<dots> = batch_result env info n
             (sub_units_in_turn env info n
                (Continue handled
                   (cli'\<lparr>trace := trace cli' @ [Log LWarn ''Unhandled encrypted message'']\<rparr>))
                rest)"
    using assms(7) body by simp
  finally show ?thesis using body by simp
qed

lemma toy_first_sub:
  "decrypt_attempt toy_env direct_info first_sub
     (fresh_client\<lparr>trace := [Log LDebug ''Decrypting messages'']\<rparr>) =
     Some (Return [2, 7], state_A)"
  by (simp add: decrypt_attempt_def first_sub_def enc_child_def attr_string_def decryptDM_def
      content_bytes_def toy_env_def toy_cipher_def unpadMessage_def HasSuffix_def Repeat_def
      strip_def emit_def fresh_client_def state_A_def direct_info_def Let_def)

lemma toy_first_handled:
  "after_decrypt toy_env direct_info n False (Return [2, 7], state_A) = Continue True state_B"
  by (simp add: after_decrypt_def toy_env_def toy_unmarshal_def handleDecryptedMessage_def
      after_key_distribution_def dispatchEvent_def emit_def state_A_def state_B_def
      plain_message_def)

lemma toy_first_step:
  "process_child toy_env direct_info n first_sub False
     (fresh_client\<lparr>trace := [Log LDebug ''Decrypting messages'']\<rparr>) = Continue True state_B"
  using process_child_attempt [OF toy_first_sub] toy_first_handled by simp

theorem decryptMessages_unhandled_type_witness:
  "GetChildren mixed_unit = [first_sub] @ unknown_sub # [third_sub] \<and>
   Tag unknown_sub = ''enc'' \<and>
   attr_string (Attrs unknown_sub) ''type'' = Some ''frskmsg'' \<and>
   process_child toy_env direct_info mixed_unit unknown_sub True state_B =
     Continue True
       (state_B\<lparr>trace := trace state_B @ [Log LWarn ''Unhandled encrypted message'']\<rparr>) \<and>
   decryptMessages toy_env direct_info mixed_unit fresh_client =
     (None,
      state_B\<lparr>trace := trace state_B @
         [Log LWarn ''Unhandled encrypted message'',
          CallDecryptDM third_sub peer False,
          DispatchEvent direct_info plain_message,
          SendNode
            (Node ''receipt''
               [''id'' \<mapsto> AString ''m1'', ''type'' \<mapsto> AString ''inactive'',
                ''to'' \<mapsto> AJID peer] CNil),
          SendAck mixed_unit]\<rparr>)"
proof -
  have k: "GetChildren mixed_unit = [first_sub] @ unknown_sub # [third_sub]"
    by (simp add: mixed_unit_def unit_with_def GetChildren_def)
  have t: "Tag unknown_sub = ''enc''"
    "attr_string (Attrs unknown_sub) ''type'' = Some ''frskmsg''"
    by (simp_all add: unknown_sub_def enc_child_def attr_string_def)
  have reach: "sub_units_in_turn toy_env direct_info mixed_unit
      (Continue False
         (fresh_client\<lparr>trace := trace fresh_client @ [Log LDebug ''Decrypting messages'']\<rparr>))
      [first_sub] = Continue True state_B"
    using toy_first_step [of mixed_unit] by (simp add: fresh_client_def)
  note th = decryptMessages_unhandled_type [OF k t(1) t(2) _ _ _ reach]
  have body: "process_child toy_env direct_info mixed_unit unknown_sub True state_B =
     Continue True
       (state_B\<lparr>trace := trace state_B @ [Log LWarn ''Unhandled encrypted message'']\<rparr>)"
    using th [THEN conjunct1] by simp
  have third: "process_child toy_env direct_info mixed_unit third_sub True
      (state_B\<lparr>trace := trace state_B @ [Log LWarn ''Unhandled encrypted message'']\<rparr>) =
     Continue True
       (state_B\<lparr>trace := trace state_B @
          [Log LWarn ''Unhandled encrypted message'', CallDecryptDM third_sub peer False,
           DispatchEvent direct_info plain_message]\<rparr>)"
    by (simp add: process_child_def third_sub_def enc_child_def attr_string_def decryptDM_def
        content_bytes_def toy_env_def toy_cipher_def unpadMessage_def HasSuffix_def Repeat_def
        strip_def emit_def fresh_client_def state_B_def direct_info_def Let_def
        after_decrypt_def toy_unmarshal_def handleDecryptedMessage_def
        after_key_distribution_def dispatchEvent_def plain_message_def)
  have run: "decryptMessages toy_env direct_info mixed_unit fresh_client =
     (None,
      sendAck mixed_unit
        (sendMessageReceipt toy_env direct_info
           (state_B\<lparr>trace := trace state_B @
              [Log LWarn ''Unhandled encrypted message'', CallDecryptDM third_sub peer False,
               DispatchEvent direct_info plain_message]\<rparr>)))"
    using th [THEN conjunct2] by (simp add: third)
  have fin: "sendAck mixed_unit
        (sendMessageReceipt toy_env direct_info
           (state_B\<lparr>trace := trace state_B @
              [Log LWarn ''Unhandled encrypted message'', CallDecryptDM third_sub peer False,
               DispatchEvent direct_info plain_message]\<rparr>)) =
      state_B\<lparr>trace := trace state_B @
         [Log LWarn ''Unhandled encrypted message'',
          CallDecryptDM third_sub peer False,
          DispatchEvent direct_info plain_message,
          SendNode
            (Node ''receipt''
               [''id'' \<mapsto> AString ''m1'', ''type'' \<mapsto> AString ''inactive'',
                ''to'' \<mapsto> AJID peer] CNil),
          SendAck mixed_unit]\<rparr>"
    by (simp add: sendAck_def sendMessageReceipt_def send_logged_def sendNode_def emit_def
        receipt_attrs_def toy_env_def direct_info_def zero_MessageInfo_def peer_def
        state_B_def fresh_client_def)
  show ?thesis using k t body run fin by simp
qed

text \<open>
  C10. When the decoded payload carries a sender-key distribution sub-payload and
  \<open>info.Chat\<close> is nil (a direct chat), \<open>handleDecryptedMessage\<close> panics with a nil
  dereference and leaves the client as it was, so that nothing reaches the event sink;
  the loop over the sub-units stops with that panic.
\<close>

theorem handleDecryptedMessage_nil_chat:
  "senderKeyDistributionMessage msg = Some skd \<Longrightarrow> Chat info = None \<Longrightarrow>
   handleDecryptedMessage env info msg cli = (Some NilDereference, cli) \<and>
   (Unmarshal env decrypted = Some msg \<longrightarrow>
      after_decrypt env info n handled (Return decrypted, cli) = Stop (Some NilDereference) cli)"
  by (simp add: handleDecryptedMessage_def after_decrypt_def)

theorem handleDecryptedMessage_nil_chat_witness:
  "Chat direct_info = None \<and>
   Unmarshal toy_env [1, 7] =
     Some \<lparr>senderKeyDistributionMessage = Some \<lparr>AxolotlSenderKeyDistributionMessage = [7]\<rparr>,
           protocolMessage = None\<rparr> \<and>
   handleDecryptedMessage toy_env direct_info
     \<lparr>senderKeyDistributionMessage = Some \<lparr>AxolotlSenderKeyDistributionMessage = [7]\<rparr>,
      protocolMessage = None\<rparr> fresh_client = (Some NilDereference, fresh_client) \<and>
   after_decrypt toy_env direct_info (unit_with []) False (Return [1, 7], fresh_client) =
     Stop (Some NilDereference) fresh_client"
  using handleDecryptedMessage_nil_chat [where
      msg = "\<lparr>senderKeyDistributionMessage = Some \<lparr>AxolotlSenderKeyDistributionMessage = [7]\<rparr>,
        protocolMessage = None\<rparr>" and skd = "\<lparr>AxolotlSenderKeyDistributionMessage = [7]\<rparr>"
      and info = direct_info and env = toy_env and decrypted = "[1, 7]" and cli = fresh_client
      and n = "unit_with []" and handled = False]
  by (simp add: direct_info_def zero_MessageInfo_def toy_env_def toy_unmarshal_def)

section \<open>Units whose sub-units are all unavailable\<close>

text \<open>
  C8, as amended. For an inbound unit all of whose sub-units are tagged
  \<open>unavailable\<close>, processing makes no decrypt attempt and increments the retry counter
  of the unit's id by exactly 1 (the increment of a Go \<open>int\<close>: the integer successor
  below the largest value, the wrap-around at it). With \<open>c\<close> the count after the
  increment, it sends exactly one retry unit, except when \<open>c\<close> is greater than 1 and
  either the device-identity record does not serialise (the failure is logged and no
  retry unit is sent) or the record serialises but the prekey generator returned no
  key (the task panics on \<open>keys[0]\<close> and no retry unit is sent).
\<close>

theorem decryptMessages_all_unavailable:
  assumes "\<forall>u \<in> set (GetChildren n). Tag u = ''unavailable''"
    and "i = attr_string_or_empty (Attrs n) ''id''"
    and "c = retry_count (messageRetries cli) i + 1"
    and "GetOrGenPreKeys env (Session cli) 1 = (keys, s)"
  shows "decrypt_attempts (snd (decryptMessages env info n cli)) = decrypt_attempts cli \<and>
         retry_count (messageRetries (snd (decryptMessages env info n cli))) i = c \<and>
         (sint (retry_count (messageRetries cli) i) < 2 ^ 63 - 1 \<longrightarrow>
            sint (retry_count (messageRetries (snd (decryptMessages env info n cli))) i) =
              sint (retry_count (messageRetries cli) i) + 1) \<and>
         fst (decryptMessages env info n cli) =
           (if 1 <s c \<and> MarshalAccount env s \<noteq> None \<and> keys = []
            then Some IndexOutOfRange else None) \<and>
         retries_sent (snd (decryptMessages env info n cli)) =
           retries_sent cli +
             (if 1 <s c \<and> (MarshalAccount env s = None \<or> keys = []) then 0 else 1)"
proof -
  have "GetChildrenByTag n ''unavailable'' = GetChildren n"
    using assms(1) by (simp add: GetChildrenByTag_def)
  then have eq: "decryptMessages env info n cli = sendRetryReceipt env n cli"
    by (simp add: decryptMessages_def)
  obtain p cli' where r: "sendRetryReceipt env n cli = (p, cli')"
    by (cases "sendRetryReceipt env n cli")
  note R = sendRetryReceipt_counts [OF r assms(4)]
  have cnt: "retry_count (messageRetries cli') i = c"
    using R(3) assms(2,3) by simp
  have "sint (retry_count (messageRetries cli) i) < 2 ^ 63 - 1 \<longrightarrow>
      sint (retry_count (messageRetries cli') i) = sint (retry_count (messageRetries cli) i) + 1"
    using cnt assms(3) by (simp add: sint_succ)
  then show ?thesis
    using R(2,4,5) cnt assms(2,3) by (simp add: eq r)
qed

theorem decryptMessages_all_unavailable_witness:
  "map Tag (GetChildren unavailable_unit) = [''unavailable'', ''unavailable''] \<and>
   GetOrGenPreKeys toy_env (Session fresh_client) 1 = ([1], 1) \<and>
   decrypt_attempts (snd (decryptMessages toy_env direct_info unavailable_unit fresh_client)) = 0 \<and>
   retry_count
     (messageRetries (snd (decryptMessages toy_env direct_info unavailable_unit fresh_client)))
     ''m1'' = 1 \<and>
   sint (retry_count
     (messageRetries (snd (decryptMessages toy_env direct_info unavailable_unit fresh_client)))
     ''m1'') = 1 \<and>
   fst (decryptMessages toy_env direct_info unavailable_unit fresh_client) = None \<and>
   retries_sent (snd (decryptMessages toy_env direct_info unavailable_unit fresh_client)) = 1"
proof -
  have k: "GetChildren unavailable_unit =
      [Node ''unavailable'' Map.empty CNil, Node ''unavailable'' Map.empty CNil]"
    by (simp add: unavailable_unit_def unit_with_def GetChildren_def)
  have h: "\<forall>u \<in> set (GetChildren unavailable_unit). Tag u = ''unavailable''"
    by (simp add: k)
  have i: "''m1'' = attr_string_or_empty (Attrs unavailable_unit) ''id''"
    by (simp add: unavailable_unit_def unit_id)
  have z: "decrypt_attempts fresh_client = 0" "retries_sent fresh_client = 0"
    "retry_count (messageRetries fresh_client) ''m1'' = 0"
    by (simp_all add: fresh_client_def decrypt_attempts_def retries_sent_def retry_count_def)
  have c: "(1 :: go_int) = retry_count (messageRetries fresh_client) ''m1'' + 1"
    by (simp add: z)
  have g: "GetOrGenPreKeys toy_env (Session fresh_client) 1 = ([1], 1)"
    by (simp add: toy_env_def fresh_client_def)
  have main: "decrypt_attempts
        (snd (decryptMessages toy_env direct_info unavailable_unit fresh_client)) = 0 \<and>
   retry_count
     (messageRetries (snd (decryptMessages toy_env direct_info unavailable_unit fresh_client)))
     ''m1'' = 1 \<and>
   sint (retry_count
     (messageRetries (snd (decryptMessages toy_env direct_info unavailable_unit fresh_client)))
     ''m1'') = 1 \<and>
   fst (decryptMessages toy_env direct_info unavailable_unit fresh_client) = None \<and>
   retries_sent (snd (decryptMessages toy_env direct_info unavailable_unit fresh_client)) = 1"
    using decryptMessages_all_unavailable [OF h i c g, of direct_info]
    by (simp add: z word_sless_alt)
  have tags: "map Tag (GetChildren unavailable_unit) = [''unavailable'', ''unavailable'']"
    by (simp add: k)
  show ?thesis using tags g main by (intro conjI) (rule tags, rule g, simp_all)
qed

text \<open>
  The claim as stated fails on the second all-unavailable unit for an id when the
  device-identity record does not serialise: the counter goes from 1 to 2 and no retry
  unit is sent.
\<close>

theorem decryptMessages_all_unavailable_marshal_failure:
  "map Tag (GetChildren unavailable_unit) = [''unavailable'', ''unavailable''] \<and>
   decryptMessages failing_marshal_env direct_info unavailable_unit retried_client =
     (None,
      \<lparr>Session = 1, messageRetries = [''m1'' \<mapsto> 2],
       trace = [Log LError ''Failed to marshal account info:'']\<rparr>) \<and>
   retries_sent
     \<lparr>Session = 1 :: nat, messageRetries = [''m1'' \<mapsto> 2],
      trace = [Log LError ''Failed to marshal account info:'']\<rparr> = 0"
  by (simp add: decryptMessages_def GetChildren_def GetChildrenByTag_def unavailable_unit_def
      sendRetryReceipt_def Let_def toy_env_def failing_marshal_env_def unit_with_def
      retried_client_def peer_def retry_count_def attr_string_or_empty_def
      attr_string_def emit_def retries_sent_def word_sless_alt)

lemma decrypt_attempt_counts:
  assumes "decrypt_attempt env info child cli = Some (r, cli')"
  shows "dispatches cli' = dispatches cli"
    and "decrypt_attempts cli' = decrypt_attempts cli + 1"
    and "retries_sent cli' = retries_sent cli"
    and "messageRetries cli' = messageRetries cli"
proof -
  obtain e where e: "is_decrypt e" "\<not> is_dispatch e" "\<not> is_retry e" "trace cli' = trace cli @ [e]"
    and m: "messageRetries cli' = messageRetries cli"
    using decrypt_attempt_trace [OF assms] by blast
  show "dispatches cli' = dispatches cli" "decrypt_attempts cli' = decrypt_attempts cli + 1"
    "retries_sent cli' = retries_sent cli"
    using counts_append [OF e(4)] e(1-3) by simp_all
  show "messageRetries cli' = messageRetries cli" by (rule m)
qed

lemma quiet_counts:
  assumes "trace cli' = trace cli @ evs" and "list_all quiet evs"
  shows "dispatches cli' = dispatches cli"
    and "decrypt_attempts cli' = decrypt_attempts cli"
    and "retries_sent cli' = retries_sent cli"
proof -
  have "list_all (\<lambda>e. \<not> is_dispatch e) evs" "list_all (\<lambda>e. \<not> is_decrypt e) evs"
    "list_all (\<lambda>e. \<not> is_retry e) evs"
    using assms(2) by (simp_all add: list_all_iff quiet_def)
  then have "filter is_dispatch evs = []" "filter is_decrypt evs = []" "filter is_retry evs = []"
    by (simp_all add: filter_empty_list_all)
  then show "dispatches cli' = dispatches cli" "decrypt_attempts cli' = decrypt_attempts cli"
    "retries_sent cli' = retries_sent cli"
    using counts_append [OF assms(1)] by simp_all
qed

lemma after_decrypt_continue:
  assumes "after_decrypt env info n h0 (Return d, cli) = Continue h cli'"
  shows "dispatches cli' = dispatches cli + (if Unmarshal env d = None then 0 else 1)"
    and "decrypt_attempts cli' = decrypt_attempts cli"
    and "retries_sent cli' = retries_sent cli"
    and "messageRetries cli' = messageRetries cli"
proof -
  have all: "dispatches cli' = dispatches cli + (if Unmarshal env d = None then 0 else 1) \<and>
    decrypt_attempts cli' = decrypt_attempts cli \<and> retries_sent cli' = retries_sent cli \<and>
    messageRetries cli' = messageRetries cli"
  proof (cases "Unmarshal env d")
    case None
    with assms have c: "cli' = emit (Log LWarn ''Error unmarshaling decrypted message'') cli"
      by (simp add: after_decrypt_def)
    have "trace cli' = trace cli @ [Log LWarn ''Error unmarshaling decrypted message'']"
      "list_all quiet [Log LWarn ''Error unmarshaling decrypted message'']"
      by (simp_all add: c emit_simps quiet_def)
    from quiet_counts [OF this] None c show ?thesis by (simp add: emit_simps)
  next
    case (Some msg)
    with assms have hd: "handleDecryptedMessage env info msg cli = (None, cli')"
      by (auto simp: after_decrypt_def split: prod.splits option.splits)
    from handleDecryptedMessage_trace [OF hd]
    obtain evs where evs: "trace cli' = trace cli @ evs @ [DispatchEvent info msg]"
        "list_all quiet evs" and m: "messageRetries cli' = messageRetries cli"
      by blast
    have q: "filter is_dispatch evs = []" "filter is_decrypt evs = []" "filter is_retry evs = []"
      using evs(2) by (simp_all add: filter_empty_list_all list_all_iff quiet_def)
    have t: "trace cli' = trace cli @ (evs @ [DispatchEvent info msg])" using evs(1) by simp
    from counts_append [OF t] q Some m show ?thesis by simp
  qed
  then show "dispatches cli' = dispatches cli + (if Unmarshal env d = None then 0 else 1)"
    "decrypt_attempts cli' = decrypt_attempts cli" "retries_sent cli' = retries_sent cli"
    "messageRetries cli' = messageRetries cli"
    by simp_all
qed

lemma emit_log_counts:
  "dispatches (emit (Log l t) cli) = dispatches cli"
  "decrypt_attempts (emit (Log l t) cli) = decrypt_attempts cli"
  "retries_sent (emit (Log l t) cli) = retries_sent cli"
  by (simp_all add: dispatches_def decrypt_attempts_def retries_sent_def emit_simps)

lemma second_failure_run:
  assumes kids: "GetChildren n = [c1, c2, c3]"
    and first: "decrypt_attempt env info c1 (emit (Log LDebug ''Decrypting messages'') cli) =
                  Some (Return d1, cliA)"
    and handled1: "after_decrypt env info n False (Return d1, cliA) = Continue h cliB"
    and second: "decrypt_attempt env info c2 cliB = Some (Fail e, cliC)"
  shows "decryptMessages env info n cli =
           sendRetryReceipt env n (emit (Log LWarn ''Error decrypting message'') cliC)"
proof -
  let ?c0 = "emit (Log LDebug ''Decrypting messages'') cli"
  let ?cW = "emit (Log LWarn ''Error decrypting message'') cliC"
  have enc: "Tag c1 = ''enc''" using decrypt_attempt_enc [OF first] .
  have "length (GetChildrenByTag n ''unavailable'') \<noteq> length (GetChildren n)"
    using enc by (simp add: GetChildrenByTag_def kids)
  then have dm: "decryptMessages env info n cli = process_children env info n [c1, c2, c3] False ?c0"
    by (simp add: decryptMessages_def kids)
  have p1: "process_child env info n c1 False ?c0 = Continue h cliB"
    using process_child_attempt [OF first] handled1 by simp
  obtain p cli' where r: "sendRetryReceipt env n ?cW = (p, cli')"
    by (cases "sendRetryReceipt env n ?cW")
  have p2: "process_child env info n c2 h cliB = Stop p cli'"
    using process_child_attempt [OF second] r by (simp add: after_decrypt_def)
  show ?thesis using dm p1 p2 r by simp
qed

section \<open>A batch whose second sub-unit fails decryption\<close>

text \<open>
  C5, as amended. For an inbound unit with three sub-units where the first decrypts
  and its payload is handled, and the second fails decryption: the dispatcher has been
  invoked once, for the first sub-unit, when its payload decoded (and not at all when
  it did not decode); two decrypt calls were made, so the third sub-unit is never
  attempted; the retry counter of the unit's id is incremented by exactly 1 (the
  increment of a Go \<open>int\<close>); and, with \<open>c\<close> the count after the increment, exactly one
  retry unit is sent, except when \<open>c\<close> is greater than 1 and either the device-identity
  record does not serialise (the failure is logged, no retry unit is sent) or the
  record serialises but the prekey generator returned no key (the task panics on
  \<open>keys[0]\<close>, no retry unit is sent).
\<close>

theorem decryptMessages_second_fails:
  assumes kids: "GetChildren n = [c1, c2, c3]"
    and first: "decrypt_attempt env info c1 (emit (Log LDebug ''Decrypting messages'') cli) =
                  Some (Return d1, cliA)"
    and handled1: "after_decrypt env info n False (Return d1, cliA) = Continue h cliB"
    and second: "decrypt_attempt env info c2 cliB = Some (Fail e, cliC)"
    and i: "i = attr_string_or_empty (Attrs n) ''id''"
    and c: "c = retry_count (messageRetries cli) i + 1"
    and g: "GetOrGenPreKeys env (Session cliC) 1 = (keys, s)"
  shows "dispatches (snd (decryptMessages env info n cli)) =
           dispatches cli + (if Unmarshal env d1 = None then 0 else 1) \<and>
         decrypt_attempts (snd (decryptMessages env info n cli)) = decrypt_attempts cli + 2 \<and>
         retry_count (messageRetries (snd (decryptMessages env info n cli))) i = c \<and>
         (sint (retry_count (messageRetries cli) i) < 2 ^ 63 - 1 \<longrightarrow>
            sint (retry_count (messageRetries (snd (decryptMessages env info n cli))) i) =
              sint (retry_count (messageRetries cli) i) + 1) \<and>
         fst (decryptMessages env info n cli) =
           (if 1 <s c \<and> MarshalAccount env s \<noteq> None \<and> keys = []
            then Some IndexOutOfRange else None) \<and>
         retries_sent (snd (decryptMessages env info n cli)) =
           retries_sent cli +
             (if 1 <s c \<and> (MarshalAccount env s = None \<or> keys = []) then 0 else 1)"
proof -
  let ?cW = "emit (Log LWarn ''Error decrypting message'') cliC"
  obtain p cli' where r: "sendRetryReceipt env n ?cW = (p, cli')"
    by (cases "sendRetryReceipt env n ?cW")
  have eq: "decryptMessages env info n cli = sendRetryReceipt env n ?cW"
    using second_failure_run [OF kids first handled1 second] .
  have g': "GetOrGenPreKeys env (Session ?cW) 1 = (keys, s)"
    using g by (simp add: emit_simps)
  note A = decrypt_attempt_counts [OF first]
  note B = after_decrypt_continue [OF handled1]
  note C = decrypt_attempt_counts [OF second]
  note R = sendRetryReceipt_counts [OF r g']
  have m: "messageRetries ?cW = messageRetries cli"
    using A(4) B(4) C(4) by (simp add: emit_simps)
  have d: "dispatches cli' = dispatches cli + (if Unmarshal env d1 = None then 0 else 1)"
    using A(1) B(1) C(1) R(1) by (simp add: emit_log_counts)
  have a: "decrypt_attempts cli' = decrypt_attempts cli + 2"
    using A(2) B(2) C(2) R(2) by (simp add: emit_log_counts)
  have cnt: "retry_count (messageRetries cli') i = c"
    using R(3) m i c by simp
  have sc: "sint (retry_count (messageRetries cli) i) < 2 ^ 63 - 1 \<longrightarrow>
      sint (retry_count (messageRetries cli') i) = sint (retry_count (messageRetries cli) i) + 1"
    using cnt c by (simp add: sint_succ)
  have pn: "p = (if 1 <s c \<and> MarshalAccount env s \<noteq> None \<and> keys = []
            then Some IndexOutOfRange else None)"
    using R(5) m i c by simp
  have sn: "retries_sent cli' = retries_sent cli +
             (if 1 <s c \<and> (MarshalAccount env s = None \<or> keys = []) then 0 else 1)"
    using R(4) m i c A(3) B(3) C(3) by (simp add: emit_log_counts)
  show ?thesis using d a cnt sc pn sn by (simp add: eq r)
qed

lemma three_unit_children: "GetChildren three_unit = [first_sub, second_sub, third_sub]"
  by (simp add: three_unit_def unit_with_def GetChildren_def)

lemma three_unit_first:
  "decrypt_attempt toy_env direct_info first_sub (emit (Log LDebug ''Decrypting messages'') fresh_client)
     = Some (Return [2, 7], state_A)"
  using toy_first_sub by (simp add: emit_def fresh_client_def)

lemma three_unit_second:
  "decrypt_attempt toy_env direct_info second_sub state_B = Some (Fail FailedDecryptNormal, state_C)"
  by (simp add: decrypt_attempt_def second_sub_def enc_child_def attr_string_def decryptDM_def
      content_bytes_def toy_env_def toy_cipher_def emit_def fresh_client_def state_B_def
      state_C_def direct_info_def Let_def)

theorem decryptMessages_second_fails_witness:
  "GetChildren three_unit = [first_sub, second_sub, third_sub] \<and>
   decrypt_attempt toy_env direct_info first_sub
       (emit (Log LDebug ''Decrypting messages'') fresh_client) = Some (Return [2, 7], state_A) \<and>
   after_decrypt toy_env direct_info three_unit False (Return [2, 7], state_A) =
     Continue True state_B \<and>
   decrypt_attempt toy_env direct_info second_sub state_B =
     Some (Fail FailedDecryptNormal, state_C) \<and>
   GetOrGenPreKeys toy_env (Session state_C) 1 = ([1], 1) \<and>
   dispatches (snd (decryptMessages toy_env direct_info three_unit fresh_client)) = 1 \<and>
   decrypt_attempts (snd (decryptMessages toy_env direct_info three_unit fresh_client)) = 2 \<and>
   retry_count (messageRetries (snd (decryptMessages toy_env direct_info three_unit fresh_client)))
     ''m1'' = 1 \<and>
   sint (retry_count
     (messageRetries (snd (decryptMessages toy_env direct_info three_unit fresh_client)))
     ''m1'') = 1 \<and>
   fst (decryptMessages toy_env direct_info three_unit fresh_client) = None \<and>
   retries_sent (snd (decryptMessages toy_env direct_info three_unit fresh_client)) = 1"
proof -
  have i: "''m1'' = attr_string_or_empty (Attrs three_unit) ''id''"
    by (simp add: three_unit_def unit_id)
  have z: "dispatches fresh_client = 0" "decrypt_attempts fresh_client = 0"
    "retries_sent fresh_client = 0" "retry_count (messageRetries fresh_client) ''m1'' = 0"
    by (simp_all add: fresh_client_def dispatches_def decrypt_attempts_def retries_sent_def
        retry_count_def)
  have c: "(1 :: go_int) = retry_count (messageRetries fresh_client) ''m1'' + 1"
    by (simp add: z)
  have g: "GetOrGenPreKeys toy_env (Session state_C) 1 = ([1], 1)"
    by (simp add: toy_env_def state_C_def fresh_client_def)
  have u: "Unmarshal toy_env [2, 7] \<noteq> None"
    by (simp add: toy_env_def toy_unmarshal_def)
  have main: "dispatches (snd (decryptMessages toy_env direct_info three_unit fresh_client)) = 1 \<and>
   decrypt_attempts (snd (decryptMessages toy_env direct_info three_unit fresh_client)) = 2 \<and>
   retry_count (messageRetries (snd (decryptMessages toy_env direct_info three_unit fresh_client)))
     ''m1'' = 1 \<and>
   sint (retry_count
     (messageRetries (snd (decryptMessages toy_env direct_info three_unit fresh_client)))
     ''m1'') = 1 \<and>
   fst (decryptMessages toy_env direct_info three_unit fresh_client) = None \<and>
   retries_sent (snd (decryptMessages toy_env direct_info three_unit fresh_client)) = 1"
    using decryptMessages_second_fails [OF three_unit_children three_unit_first
        toy_first_handled three_unit_second i c g]
    by (simp add: z u word_sless_alt)
  show ?thesis
    using main
    by (intro conjI) (rule three_unit_children, rule three_unit_first, rule toy_first_handled,
        rule three_unit_second, rule g, simp_all)
qed

lemma three_unit_run:
  "filter is_dispatch (trace (snd (decryptMessages toy_env direct_info three_unit fresh_client))) =
     [DispatchEvent direct_info plain_message]"
proof -
  have "decryptMessages toy_env direct_info three_unit fresh_client =
      sendRetryReceipt toy_env three_unit (emit (Log LWarn ''Error decrypting message'') state_C)"
    using second_failure_run [OF three_unit_children three_unit_first toy_first_handled
        three_unit_second] .
  moreover have "filter is_dispatch (trace (snd (sendRetryReceipt toy_env three_unit
      (emit (Log LWarn ''Error decrypting message'') state_C)))) =
     [DispatchEvent direct_info plain_message]"
    by (simp add: sendRetryReceipt_def Let_def send_retry_def send_logged_def sendNode_def
        emit_def state_C_def fresh_client_def retry_count_def toy_env_def word_sless_alt)
  ultimately show ?thesis by simp
qed

lemma three_unit_tags:
  "Tag first_sub = ''enc''" "Tag second_sub = ''enc''" "Tag third_sub = ''enc''"
  by (simp_all add: first_sub_def second_sub_def third_sub_def enc_child_def)

text \<open>
  The claim as stated (the dispatcher is invoked for zero sub-units) fails on the
  three-sub-unit example: the first sub-unit is dispatched inside the loop, before the
  second one is decrypted, so one event has reached the event sink when the batch is
  abandoned.
\<close>

theorem decryptMessages_partial_dispatch:
  "GetChildren three_unit = [first_sub, second_sub, third_sub] \<and>
   Tag first_sub = ''enc'' \<and> Tag second_sub = ''enc'' \<and> Tag third_sub = ''enc'' \<and>
   decrypt_attempt toy_env direct_info first_sub
       (emit (Log LDebug ''Decrypting messages'') fresh_client) = Some (Return [2, 7], state_A) \<and>
   decrypt_attempt toy_env direct_info second_sub state_B =
     Some (Fail FailedDecryptNormal, state_C) \<and>
   filter is_dispatch (trace (snd (decryptMessages toy_env direct_info three_unit fresh_client))) =
     [DispatchEvent direct_info plain_message] \<and>
   dispatches (snd (decryptMessages toy_env direct_info three_unit fresh_client)) = 1"
  by (simp add: three_unit_children three_unit_first three_unit_second three_unit_run
      dispatches_def three_unit_tags)

end
